theory Spec2Isabelle
  imports Main
begin

section \<open>JavaScript values\<close>

text \<open>
  The store state, the action inputs and the HTTP payloads are untyped JavaScript values
  (\<^verbatim>\<open>any\<close> in the sources). The universe used here: \<^verbatim>\<open>undefined\<close>,
  \<^verbatim>\<open>null\<close>, booleans, the safe integers, strings, dense arrays and plain data objects
  (a list of own keys with their values, the first entry of a key being the one read).
  Functions, symbols, the other numbers (fractions, \<^verbatim>\<open>NaN\<close>, integers of a magnitude
  above \<open>2\<^sup>5\<^sup>3 - 1\<close>) are outside the universe, and so are the properties of anything but
  a plain object (the indices and the length of an array or a string, and what is
  inherited from the built-in prototypes).
\<close>

text \<open>
  The safe integers, \<^verbatim>\<open>Number.MIN_SAFE_INTEGER\<close> to \<^verbatim>\<open>Number.MAX_SAFE_INTEGER\<close>: the
  integers a JavaScript number holds exactly, and writes with all their decimal digits.
\<close>

typedef jsint = "{n :: int. - 9007199254740991 \<le> n \<and> n \<le> 9007199254740991}"
  by (rule exI [of _ 0]) simp

datatype jsval =
    JUndefined
  | JNull
  | JBool bool
  | JNumber jsint
  | JStr string
  | JArr "jsval list"
  | JObj "(string \<times> jsval) list"

setup_lifting type_definition_jsint

instantiation jsint :: equal
begin

lift_definition equal_jsint :: "jsint \<Rightarrow> jsint \<Rightarrow> bool" is "\<lambda>a b. a = b" .

instance
  by standard (transfer, simp)

end

text \<open>
  The number \<open>n\<close>, for a safe integer \<open>n\<close>; the numerals of the examples are written
  with it.
\<close>

lift_definition safe_integer :: "int \<Rightarrow> jsint" is
  "\<lambda>n. if - 9007199254740991 \<le> n \<and> n \<le> 9007199254740991 then n else 0"
  by simp

definition JNum :: "int \<Rightarrow> jsval" where
  "JNum n = JNumber (safe_integer n)"

text \<open>
  What the code can throw: the runtime's \<^verbatim>\<open>TypeError\<close> (reading a property of
  \<^verbatim>\<open>undefined\<close> or \<^verbatim>\<open>null\<close>, converting to a string an object that has no usable
  \<^verbatim>\<open>toString\<close>), \<^verbatim>\<open>new Error(message)\<close>, and whatever value the HTTP layer rejects
  with or a function of the application throws.
\<close>

datatype exn = TypeError | Error string | Rejected jsval

text \<open>\<^verbatim>\<open>Boolean(v)\<close> and \<^verbatim>\<open>!v\<close>.\<close>

fun truthy :: "jsval \<Rightarrow> bool" where
  "truthy JUndefined = False"
| "truthy JNull = False"
| "truthy (JBool b) = b"
| "truthy (JNumber n) = (Rep_jsint n \<noteq> 0)"
| "truthy (JStr s) = (s \<noteq> [])"
| "truthy (JArr xs) = True"
| "truthy (JObj kvs) = True"

text \<open>
  \<^verbatim>\<open>a === b\<close>. On two objects or two arrays it is reference identity; the values here
  are data built apart from one another (a response body, an action input, an element of
  the state), so two of them are never the same reference.
\<close>

fun strict_eq :: "jsval \<Rightarrow> jsval \<Rightarrow> bool" where
  "strict_eq JUndefined JUndefined = True"
| "strict_eq JNull JNull = True"
| "strict_eq (JBool a) (JBool b) = (a = b)"
| "strict_eq (JNumber a) (JNumber b) = (a = b)"
| "strict_eq (JStr a) (JStr b) = (a = b)"
| "strict_eq _ _ = False"

fun nullish :: "jsval \<Rightarrow> bool" where
  "nullish JUndefined = True"
| "nullish JNull = True"
| "nullish _ = False"

text \<open>
  \<^verbatim>\<open>v[key]\<close>: a \<^verbatim>\<open>TypeError\<close> on \<^verbatim>\<open>undefined\<close> and \<^verbatim>\<open>null\<close>, the own
  property of an object, \<^verbatim>\<open>undefined\<close> for a key that is not there and for a key of
  anything that is not an object.
\<close>

fun member_js :: "jsval \<Rightarrow> string \<Rightarrow> jsval" where
  "member_js (JObj kvs) key = (case map_of kvs key of None \<Rightarrow> JUndefined | Some v \<Rightarrow> v)"
| "member_js _ key = JUndefined"

definition getProp :: "jsval \<Rightarrow> string \<Rightarrow> exn + jsval" where
  "getProp v key = (if nullish v then Inl TypeError else Inr (member_js v key))"

text \<open>
  Modelled from the spec: \<^verbatim>\<open>isArray\<close> of \<^verbatim>\<open>./utils\<close>, whose file is not among the
  sources; the spec's word for what it tests is "is a sequence".
\<close>

fun isArray :: "jsval \<Rightarrow> bool" where
  "isArray (JArr xs) = True"
| "isArray _ = False"

subsection \<open>Template literals\<close>

text \<open>The decimal digits of a number, and a number with its sign.\<close>

fun decimal :: "nat \<Rightarrow> string" where
  "decimal n = (if 10 \<le> n then decimal (n div 10) else []) @ [''0123456789'' ! (n mod 10)]"

declare decimal.simps [simp del]

definition number_text :: "int \<Rightarrow> string" where
  "number_text i = (if 0 \<le> i then decimal (nat i) else CHR ''-'' # decimal (nat (- i)))"

fun join_js :: "string list \<Rightarrow> string" where
  "join_js [] = []"
| "join_js [s] = s"
| "join_js (s # t # ts) = s @ '','' @ join_js (t # ts)"

text \<open>
  The conversions of the elements of an array, joined: the first throw, in the order of
  the elements, or the strings with commas between them.
\<close>

fun join_converted :: "(exn + string) list \<Rightarrow> exn + string list" where
  "join_converted [] = Inr []"
| "join_converted (Inl err # rs) = Inl err"
| "join_converted (Inr s # rs) =
     (case join_converted rs of Inl err \<Rightarrow> Inl err | Inr ss \<Rightarrow> Inr (s # ss))"

text \<open>
  The string a template literal \<^verbatim>\<open>`${v}`\<close> puts in place of \<^verbatim>\<open>v\<close>, or the
  \<^verbatim>\<open>TypeError\<close> the conversion throws. A safe integer is written in decimal. An array is
  its elements joined by commas, \<^verbatim>\<open>undefined\<close> and \<^verbatim>\<open>null\<close> elements giving the
  empty string. An object is converted by its \<^verbatim>\<open>toString\<close>: the inherited one gives
  \<^verbatim>\<open>[object Object]\<close>; an own key \<^verbatim>\<open>toString\<close> hides it, and its value, which is no
  function in this universe, cannot be called, nor can \<^verbatim>\<open>valueOf\<close> give a primitive
  in its place, so the conversion throws.
\<close>

fun toString_js :: "jsval \<Rightarrow> exn + string" where
  "toString_js JUndefined = Inr ''undefined''"
| "toString_js JNull = Inr ''null''"
| "toString_js (JBool b) = Inr (if b then ''true'' else ''false'')"
| "toString_js (JNumber n) = Inr (number_text (Rep_jsint n))"
| "toString_js (JStr s) = Inr s"
| "toString_js (JArr xs) =
     (case join_converted (map (\<lambda>x. if nullish x then Inr [] else toString_js x) xs) of
        Inl err \<Rightarrow> Inl err
      | Inr ss \<Rightarrow> Inr (join_js ss))"
| "toString_js (JObj kvs) =
     (if map_of kvs ''toString'' = None then Inr ''[object Object]'' else Inl TypeError)"

subsection \<open>\<^verbatim>\<open>toUpperCase\<close> and \<^verbatim>\<open>toLowerCase\<close>, on ASCII letters\<close>

definition upper_char :: "char \<Rightarrow> char" where
  "upper_char c =
     (case map_of (zip ''abcdefghijklmnopqrstuvwxyz'' ''ABCDEFGHIJKLMNOPQRSTUVWXYZ'') c of
        None \<Rightarrow> c
      | Some u \<Rightarrow> u)"

definition lower_char :: "char \<Rightarrow> char" where
  "lower_char c =
     (case map_of (zip ''ABCDEFGHIJKLMNOPQRSTUVWXYZ'' ''abcdefghijklmnopqrstuvwxyz'') c of
        None \<Rightarrow> c
      | Some l \<Rightarrow> l)"

definition toUpperCase :: "string \<Rightarrow> string" where
  "toUpperCase s = map upper_char s"

definition toLowerCase :: "string \<Rightarrow> string" where
  "toLowerCase s = map lower_char s"

section \<open>The types of \<^verbatim>\<open>types/types\<close>\<close>

text \<open>
  \<^verbatim>\<open>CrudAction\<close> is the enumeration of the five actions. The generator compares its
  argument with each member and has a branch for anything else, so the value that is none
  of the five is part of the type here; it carries the text \<^verbatim>\<open>`${action}`\<close> gives.
\<close>

datatype CrudAction =
    fetchItems
  | getItem
  | createItem
  | deleteItem
  | updateItem
  | otherAction string

record ResourceName =
  original :: string
  singular :: string
  plural :: string

text \<open>\<^verbatim>\<open>LoadingMutation\<close>: \<^verbatim>\<open>{ name, state }\<close>.\<close>

record LoadingMutation =
  lm_name :: string
  lm_state :: string

text \<open>
  What is handed to the HTTP client, \<^verbatim>\<open>{ method, url, params, data }\<close>, and the
  \<^verbatim>\<open>APIDefinition\<close> that adds the two mappers. A field the code leaves out is
  \<^verbatim>\<open>undefined\<close>. The field \<^verbatim>\<open>method\<close> is \<open>httpMethod\<close> here. A mapper returns a
  value or throws; the mappers of the default definition return their argument, the
  application's custom hook can give others.
\<close>

record AxiosRequestConfig =
  httpMethod :: string
  url :: string
  params :: jsval
  data :: jsval

record APIDefinition = AxiosRequestConfig +
  dataMapper :: "jsval \<Rightarrow> exn + jsval"
  stateMapper :: "jsval \<Rightarrow> exn + jsval"

text \<open>
  The object a mutation is committed with: \<^verbatim>\<open>{ data }\<close> or \<^verbatim>\<open>{ data, actionData }\<close>;
  the mutations read it by destructuring, so a key that is not there reads
  \<^verbatim>\<open>undefined\<close>.
\<close>

record Payload =
  payload_data :: jsval
  payload_actionData :: jsval

text \<open>
  The module state is an object: keys to values. A mutation gets the state and a payload
  and either throws or leaves a new state; each mutation of this repository checks before
  it writes, so a mutation that throws has written nothing.
\<close>

type_synonym State = "string \<rightharpoonup> jsval"

type_synonym Mutation = "State \<Rightarrow> Payload \<Rightarrow> exn + State"

definition read_state :: "State \<Rightarrow> string \<Rightarrow> jsval" where
  "read_state st key = (case st key of None \<Rightarrow> JUndefined | Some v \<Rightarrow> v)"

text \<open>
  \<^verbatim>\<open>CrudModuleConfig\<close>, the object of the \<^verbatim>\<open>config\<close> getter, and \<^verbatim>\<open>ActionConfig\<close>,
  which adds what one action needs. The type \<open>'g\<close> is how the request generator is held
  (a function where \<^verbatim>\<open>Action\<close> calls it), the type \<open>'h\<close> how the two callbacks are
  (an \<open>ActionHandler\<close> where \<^verbatim>\<open>Action\<close> calls them). The HTTP client is the outcome of
  the one call an action makes: the error it rejects with, or the \<^verbatim>\<open>data\<close> of its
  response. The response is read only through \<^verbatim>\<open>res.data\<close>, first thing after the call,
  so a client that resolves with \<^verbatim>\<open>undefined\<close> or \<^verbatim>\<open>null\<close> is one that fails with
  the \<^verbatim>\<open>TypeError\<close> of that reading.
\<close>

record ('g, 'h) CrudModuleConfig =
  generateAxiosRequestConfig :: 'g
  resourceName :: ResourceName
  axios :: "AxiosRequestConfig \<Rightarrow> exn + jsval"
  commitState :: bool
  handleActionSuccess :: 'h
  handleActionError :: 'h

record ('g, 'h) ActionConfig = "('g, 'h) CrudModuleConfig" +
  loadingMutation :: LoadingMutation
  mutationName :: string
  actionName :: string
  actionType :: CrudAction

type_synonym APIDefinitionFunction = "string \<Rightarrow> CrudAction \<Rightarrow> jsval \<Rightarrow> exn + APIDefinition"

text \<open>The custom hook is a function of the application: it returns a definition or throws.\<close>

type_synonym CustomAPIDefinitionFunction =
  "APIDefinition \<Rightarrow> string \<Rightarrow> CrudAction \<Rightarrow> jsval \<Rightarrow> exn + APIDefinition"

text \<open>
  \<^verbatim>\<open>ActionHandler\<close>, the type of the success and of the error callback: a function of
  the application, called with the action type, a payload and the resource name. The
  payload is \<^verbatim>\<open>any\<close>: the state-mapped response (\<open>Inr\<close>) or what was caught
  (\<open>Inl\<close>). What it returns is not read; \<open>None\<close> is a call that returns, \<open>Some err\<close>
  one that throws \<open>err\<close>.
\<close>

type_synonym ActionHandler = "CrudAction \<Rightarrow> exn + jsval \<Rightarrow> string \<Rightarrow> exn option"

section \<open>\<^verbatim>\<open>Action\<close>\<close>

text \<open>
  What one call of \<^verbatim>\<open>execute\<close> does, in order: the mutations it commits, the HTTP
  request it makes, the calls of the success and of the error callback.
\<close>

datatype event =
    Commit string Payload
  | Request AxiosRequestConfig
  | Success CrudAction jsval string
  | Failure CrudAction exn string

fun is_Commit :: "event \<Rightarrow> bool" where
  "is_Commit (Commit type p) = True"
| "is_Commit _ = False"

datatype outcome = Returned jsval | Threw exn

record Run =
  outcome :: outcome
  store :: State
  trace :: "event list"

text \<open>
  \<^verbatim>\<open>commit(type, payload)\<close> of the store context: the host framework runs the mutation
  registered under \<^verbatim>\<open>type\<close> on the module state, and what the mutation throws reaches
  the caller of \<^verbatim>\<open>commit\<close>; a type with no mutation changes nothing.
\<close>

definition commit :: "(string \<rightharpoonup> Mutation) \<Rightarrow> State \<Rightarrow> string \<Rightarrow> Payload \<Rightarrow> exn + State" where
  "commit muts st type p = (case muts type of None \<Rightarrow> Inr st | Some m \<Rightarrow> m st p)"

text \<open>
  The statement \<^verbatim>\<open>if (commitState) commit(mutationName, { data: stateMapper(res.data),
  actionData })\<close>: what it threw if it did, the store and the events it leaves. The mapper is
  called before the commit.
\<close>

definition commit_step ::
  "(APIDefinitionFunction, ActionHandler) ActionConfig \<Rightarrow> (string \<rightharpoonup> Mutation) \<Rightarrow> APIDefinition \<Rightarrow>
     State \<Rightarrow> jsval \<Rightarrow> jsval \<Rightarrow> exn option \<times> State \<times> event list" where
  "commit_step cfg muts d st actionData res_data =
     (if commitState cfg then
        (case stateMapper d res_data of
           Inl err \<Rightarrow> (Some err, st, [])
         | Inr mapped \<Rightarrow>
             (let p = \<lparr>payload_data = mapped, payload_actionData = actionData\<rparr> in
              case commit muts st (mutationName cfg) p of
                Inl err \<Rightarrow> (Some err, st, [Commit (mutationName cfg) p])
              | Inr st' \<Rightarrow> (None, st', [Commit (mutationName cfg) p])))
      else (None, st, []))"

text \<open>
  The two statements after it: the call of the success callback with the state-mapped
  response, and \<^verbatim>\<open>return dataMapper(res.data)\<close>. Each of the three functions can throw.
\<close>

definition success_step ::
  "(APIDefinitionFunction, ActionHandler) ActionConfig \<Rightarrow> APIDefinition \<Rightarrow> jsval \<Rightarrow>
     (exn + jsval) \<times> event list" where
  "success_step cfg d res_data =
     (case stateMapper d res_data of
        Inl err \<Rightarrow> (Inl err, [])
      | Inr mapped \<Rightarrow>
          (let called = [Success (actionType cfg) mapped (original (resourceName cfg))] in
           case handleActionSuccess cfg (actionType cfg) (Inr mapped) (original (resourceName cfg)) of
             Some err \<Rightarrow> (Inl err, called)
           | None \<Rightarrow>
               (case dataMapper d res_data of
                  Inl err \<Rightarrow> (Inl err, called)
                | Inr result \<Rightarrow> (Inr result, called))))"

text \<open>
  The \<^verbatim>\<open>try\<close> block of \<^verbatim>\<open>execute\<close>: the HTTP call and the three statements. The first
  throw ends it.
\<close>

definition try_block ::
  "(APIDefinitionFunction, ActionHandler) ActionConfig \<Rightarrow> (string \<rightharpoonup> Mutation) \<Rightarrow> APIDefinition \<Rightarrow>
     State \<Rightarrow> jsval \<Rightarrow> (exn + jsval) \<times> State \<times> event list" where
  "try_block cfg muts d st actionData =
     (let req = \<lparr>httpMethod = httpMethod d, url = url d, params = params d, data = data d\<rparr> in
      case axios cfg req of
        Inl err \<Rightarrow> (Inl err, st, [Request req])
      | Inr res_data \<Rightarrow>
          (case commit_step cfg muts d st actionData res_data of
             (Some err, st', committed) \<Rightarrow> (Inl err, st', Request req # committed)
           | (None, st', committed) \<Rightarrow>
               (case success_step cfg d res_data of
                  (r, called) \<Rightarrow> (r, st', Request req # committed @ called))))"

text \<open>
  The \<^verbatim>\<open>catch\<close> block: the error callback is called with what was caught; the function
  then returns \<^verbatim>\<open>undefined\<close>, unless the callback throws.
\<close>

definition catch_block ::
  "(APIDefinitionFunction, ActionHandler) ActionConfig \<Rightarrow> exn \<Rightarrow> outcome \<times> event list" where
  "catch_block cfg err =
     ((case handleActionError cfg (actionType cfg) (Inl err) (original (resourceName cfg)) of
         None \<Rightarrow> Returned JUndefined
       | Some thrown \<Rightarrow> Threw thrown),
      [Failure (actionType cfg) err (original (resourceName cfg))])"

text \<open>
  \<^verbatim>\<open>execute\<close>. The loading mutation is committed with \<^verbatim>\<open>true\<close>, then the request is
  generated; both stand before the \<^verbatim>\<open>try\<close>, so a throw of either leaves the function
  at once. A throw inside the \<^verbatim>\<open>try\<close> goes to the \<^verbatim>\<open>catch\<close>. The \<^verbatim>\<open>finally\<close>
  commits the loading mutation with \<^verbatim>\<open>false\<close>, whatever the two blocks did, and a throw
  of that commit is what the call throws.
\<close>

definition execute ::
  "(APIDefinitionFunction, ActionHandler) ActionConfig \<Rightarrow> (string \<rightharpoonup> Mutation) \<Rightarrow> State \<Rightarrow> jsval \<Rightarrow> Run" where
  "execute cfg muts st actionData =
     (let loading = lm_name (loadingMutation cfg);
          on = \<lparr>payload_data = JBool True, payload_actionData = JUndefined\<rparr>;
          off = \<lparr>payload_data = JBool False, payload_actionData = JUndefined\<rparr>
      in case commit muts st loading on of
           Inl err \<Rightarrow> \<lparr>outcome = Threw err, store = st, trace = [Commit loading on]\<rparr>
         | Inr st1 \<Rightarrow>
             (case generateAxiosRequestConfig cfg (original (resourceName cfg)) (actionType cfg)
                     actionData of
                Inl err \<Rightarrow> \<lparr>outcome = Threw err, store = st1, trace = [Commit loading on]\<rparr>
              | Inr d \<Rightarrow>
                  (case try_block cfg muts d st1 actionData of
                     (r, st2, tried) \<Rightarrow>
                       (let caught =
                              (case r of
                                 Inl err \<Rightarrow> catch_block cfg err
                               | Inr result \<Rightarrow> (Returned result, []))
                        in case commit muts st2 loading off of
                             Inl err \<Rightarrow>
                               \<lparr>outcome = Threw err, store = st2,
                                trace = Commit loading on # tried @ snd caught
                                          @ [Commit loading off]\<rparr>
                           | Inr st3 \<Rightarrow>
                               \<lparr>outcome = fst caught, store = st3,
                                trace = Commit loading on # tried @ snd caught
                                          @ [Commit loading off]\<rparr>))))"

text \<open>The three getters of \<^verbatim>\<open>Action\<close>: its state key, its action, its mutation.\<close>

definition Action_state :: "('g, 'h) ActionConfig \<Rightarrow> State" where
  "Action_state cfg = [lm_state (loadingMutation cfg) \<mapsto> JNull]"

definition loading_mutation :: "LoadingMutation \<Rightarrow> Mutation" where
  "loading_mutation lm st p = Inr (st(lm_state lm \<mapsto> JBool (truthy (payload_data p))))"

definition Action_mutations :: "('g, 'h) ActionConfig \<Rightarrow> (string \<rightharpoonup> Mutation)" where
  "Action_mutations cfg = [lm_name (loadingMutation cfg) \<mapsto> loading_mutation (loadingMutation cfg)]"

section \<open>\<^verbatim>\<open>CrudModule\<close>\<close>

text \<open>
  An instance of \<^verbatim>\<open>CrudModule\<close>: the fields the \<^verbatim>\<open>config\<close> getter copies, and the
  others. Instances are mutable objects, so they live in a heap and are named by their
  address. The field \<^verbatim>\<open>generateAxiosRequestConfig\<close> holds the arrow function the
  constructor made; the function reads \<^verbatim>\<open>this.idAttribute\<close> and
  \<^verbatim>\<open>this.customAPIDefinition\<close> of the instance it was made in, when it is called. It is
  held as the address of that instance. The type \<open>'u\<close> is the additional actions of the
  application.
\<close>

record ('h, 'u) CrudModule = "(nat, 'h) CrudModuleConfig" +
  customAPIDefinition :: "CustomAPIDefinitionFunction option"
  idAttribute :: string
  additionalActions :: "string \<rightharpoonup> 'u"
  additionalState :: State
  updateStateAfterAction :: bool
  refreshAfterAction :: bool

type_synonym ('h, 'u) heap = "('h, 'u) CrudModule list"

text \<open>
  An action of a module: the bound \<^verbatim>\<open>execute\<close> of an \<^verbatim>\<open>Action\<close>, which is its
  configuration, or an additional action.
\<close>

datatype ('g, 'h, 'u) action = Execute "('g, 'h) ActionConfig" | Additional 'u

text \<open>\<^verbatim>\<open>Module\<close>, what \<^verbatim>\<open>getModule\<close> returns.\<close>

record ('h, 'u) Module =
  namespaced :: bool
  state :: State
  actions :: "string \<rightharpoonup> (nat, 'h, 'u) action"
  mutations :: "string \<rightharpoonup> Mutation"
  getters :: State

subsection \<open>The request generator\<close>

text \<open>
  The chain of comparisons that builds \<^verbatim>\<open>partialDef\<close>, and its last branch. A template
  literal that cannot convert its value throws before the object is built.
\<close>

definition item_url :: "string \<Rightarrow> jsval \<Rightarrow> exn + string" where
  "item_url resource v =
     (case toString_js v of Inl err \<Rightarrow> Inl err | Inr s \<Rightarrow> Inr (''/'' @ resource @ ''/'' @ s))"

fun partialDef :: "string \<Rightarrow> string \<Rightarrow> CrudAction \<Rightarrow> jsval \<Rightarrow> exn + AxiosRequestConfig" where
  "partialDef idAttr resource fetchItems actionData =
     Inr \<lparr>httpMethod = ''GET'', url = ''/'' @ resource, params = JUndefined, data = JUndefined\<rparr>"
| "partialDef idAttr resource getItem actionData =
     (case item_url resource actionData of
        Inl err \<Rightarrow> Inl err
      | Inr u \<Rightarrow> Inr \<lparr>httpMethod = ''GET'', url = u, params = JUndefined, data = JUndefined\<rparr>)"
| "partialDef idAttr resource createItem actionData =
     Inr \<lparr>httpMethod = ''POST'', url = ''/'' @ resource, params = JUndefined, data = actionData\<rparr>"
| "partialDef idAttr resource deleteItem actionData =
     (case item_url resource actionData of
        Inl err \<Rightarrow> Inl err
      | Inr u \<Rightarrow> Inr \<lparr>httpMethod = ''DELETE'', url = u, params = JUndefined, data = JUndefined\<rparr>)"
| "partialDef idAttr resource updateItem actionData =
     (case getProp actionData idAttr of
        Inl err \<Rightarrow> Inl err
      | Inr v \<Rightarrow>
          (case item_url resource v of
             Inl err \<Rightarrow> Inl err
           | Inr u \<Rightarrow> Inr \<lparr>httpMethod = ''PUT'', url = u, params = JUndefined, data = actionData\<rparr>))"
| "partialDef idAttr resource (otherAction a) actionData =
     Inl (Error (a @ '' is not a valid CRUD action''))"

text \<open>
  The body of the arrow function, with \<open>this\<close> the instance it reads. What the custom hook
  returns or throws is what the function returns or throws.
\<close>

definition generateAxiosRequestConfig_body :: "('h, 'u) CrudModule \<Rightarrow> APIDefinitionFunction" where
  "generateAxiosRequestConfig_body this resource action actionData =
     (case partialDef (idAttribute this) resource action actionData of
        Inl err \<Rightarrow> Inl err
      | Inr pd \<Rightarrow>
          (let definition =
                 \<lparr>httpMethod = httpMethod pd, url = url pd, params = params pd, data = data pd,
                  dataMapper = (\<lambda>e. Inr e), stateMapper = (\<lambda>e. Inr e)\<rparr>
           in case customAPIDefinition this of
                None \<Rightarrow> Inr definition
              | Some custom \<Rightarrow> custom definition resource action actionData))"

subsection \<open>Names\<close>

record StateNames =
  items :: string
  currentItem :: string

definition CrudModule_states :: "('h, 'u) CrudModule \<Rightarrow> StateNames" where
  "CrudModule_states this =
     \<lparr>items = toLowerCase (plural (resourceName this)),
      currentItem = ''current'' @ singular (resourceName this)\<rparr>"

text \<open>
  The names of the five mutations. The fields for update and delete carry a suffix, their
  names being those of two members of \<^verbatim>\<open>CrudAction\<close>.
\<close>

record MutationNames =
  setItems :: string
  setCurrentItem :: string
  addItem :: string
  updateItem_name :: string
  deleteItem_name :: string

definition CrudModule_mutations :: "('h, 'u) CrudModule \<Rightarrow> MutationNames" where
  "CrudModule_mutations this =
     \<lparr>setItems = ''SET_'' @ toUpperCase (plural (resourceName this)),
      setCurrentItem = ''SET_CURRENT_'' @ toUpperCase (singular (resourceName this)),
      addItem = ''ADD_'' @ toUpperCase (singular (resourceName this)),
      updateItem_name = ''UPDATE_'' @ toUpperCase (singular (resourceName this)),
      deleteItem_name = ''DELETE_'' @ toUpperCase (singular (resourceName this))\<rparr>"

definition config :: "('h, 'u) CrudModule \<Rightarrow> (nat, 'h) CrudModuleConfig" where
  "config this =
     \<lparr>generateAxiosRequestConfig = generateAxiosRequestConfig this,
      resourceName = resourceName this,
      axios = axios this,
      commitState = commitState this,
      handleActionSuccess = handleActionSuccess this,
      handleActionError = handleActionError this\<rparr>"

text \<open>
  Modelled from the spec: \<^verbatim>\<open>ActionFactory\<close>, whose file is not among the sources. The
  module builder "constructs one ActionExecutor per default action type", and the executor
  reads from its configuration the fields of the module configuration and the four values
  given to \<^verbatim>\<open>create\<close>.
\<close>

definition ActionFactory_create ::
  "('g, 'h) CrudModuleConfig \<Rightarrow> LoadingMutation \<Rightarrow> string \<Rightarrow> string \<Rightarrow> CrudAction \<Rightarrow>
     ('g, 'h) ActionConfig" where
  "ActionFactory_create c lm mutation_name action_name action_type =
     \<lparr>generateAxiosRequestConfig = generateAxiosRequestConfig c,
      resourceName = resourceName c,
      axios = axios c,
      commitState = commitState c,
      handleActionSuccess = handleActionSuccess c,
      handleActionError = handleActionError c,
      loadingMutation = lm,
      mutationName = mutation_name,
      actionName = action_name,
      actionType = action_type\<rparr>"

text \<open>The \<^verbatim>\<open>actions\<close> getter of \<^verbatim>\<open>CrudModule\<close>: the five executors, in its order.\<close>

definition CrudModule_actions :: "('h, 'u) CrudModule \<Rightarrow> (nat, 'h) ActionConfig list" where
  "CrudModule_actions this =
     (let rn = resourceName this; ms = CrudModule_mutations this in
      [ActionFactory_create (config this)
         \<lparr>lm_name = ''SET_FETCHING_'' @ toUpperCase (plural rn),
          lm_state = ''fetching'' @ plural rn\<rparr>
         (setItems ms) (''fetch'' @ plural rn) fetchItems,
       ActionFactory_create (config this)
         \<lparr>lm_name = ''SET_GETTING_'' @ toUpperCase (singular rn),
          lm_state = ''getting'' @ singular rn\<rparr>
         (setCurrentItem ms) (''get'' @ singular rn) getItem,
       ActionFactory_create (config this)
         \<lparr>lm_name = ''SET_CREATING_'' @ toUpperCase (singular rn),
          lm_state = ''creating'' @ singular rn\<rparr>
         (addItem ms) (''create'' @ singular rn) createItem,
       ActionFactory_create (config this)
         \<lparr>lm_name = ''SET_UPDATING_'' @ toUpperCase (singular rn),
          lm_state = ''updating'' @ singular rn\<rparr>
         (updateItem_name ms) (''update'' @ singular rn) updateItem,
       ActionFactory_create (config this)
         \<lparr>lm_name = ''SET_DELETING_'' @ toUpperCase (singular rn),
          lm_state = ''deleting'' @ singular rn\<rparr>
         (deleteItem_name ms) (''delete'' @ singular rn) deleteItem])"

text \<open>The \<^verbatim>\<open>actions\<close> getter of \<^verbatim>\<open>Action\<close>.\<close>

definition Action_actions :: "('g, 'h) ActionConfig \<Rightarrow> (string \<rightharpoonup> ('g, 'h, 'u) action)" where
  "Action_actions cfg = [actionName cfg \<mapsto> Execute cfg]"

subsection \<open>The five mutations\<close>

fun elements :: "jsval \<Rightarrow> jsval list" where
  "elements (JArr xs) = xs"
| "elements _ = []"

text \<open>
  \<^verbatim>\<open>findIndex\<close> and \<^verbatim>\<open>filter\<close> with a callback that can throw: the throw ends the
  loop. \<open>None\<close> is the index \<^verbatim>\<open>-1\<close>.
\<close>

fun findIndex_js :: "(jsval \<Rightarrow> exn + bool) \<Rightarrow> jsval list \<Rightarrow> exn + nat option" where
  "findIndex_js f [] = Inr None"
| "findIndex_js f (x # xs) =
     (case f x of
        Inl err \<Rightarrow> Inl err
      | Inr True \<Rightarrow> Inr (Some 0)
      | Inr False \<Rightarrow>
          (case findIndex_js f xs of
             Inl err \<Rightarrow> Inl err
           | Inr None \<Rightarrow> Inr None
           | Inr (Some i) \<Rightarrow> Inr (Some (Suc i))))"

fun filter_js :: "(jsval \<Rightarrow> exn + bool) \<Rightarrow> jsval list \<Rightarrow> exn + jsval list" where
  "filter_js f [] = Inr []"
| "filter_js f (x # xs) =
     (case f x of
        Inl err \<Rightarrow> Inl err
      | Inr keep \<Rightarrow>
          (case filter_js f xs of
             Inl err \<Rightarrow> Inl err
           | Inr ys \<Rightarrow> Inr (if keep then x # ys else ys)))"

text \<open>\<^verbatim>\<open>e => e[this.idAttribute] === data[this.idAttribute]\<close>\<close>

definition same_id :: "string \<Rightarrow> jsval \<Rightarrow> jsval \<Rightarrow> exn + bool" where
  "same_id idAttr dat e =
     (case getProp e idAttr of
        Inl err \<Rightarrow> Inl err
      | Inr a \<Rightarrow> (case getProp dat idAttr of Inl err \<Rightarrow> Inl err | Inr b \<Rightarrow> Inr (strict_eq a b)))"

text \<open>\<^verbatim>\<open>e => e[this.idAttribute] !== actionData\<close>\<close>

definition other_id :: "string \<Rightarrow> jsval \<Rightarrow> jsval \<Rightarrow> exn + bool" where
  "other_id idAttr actionData e =
     (case getProp e idAttr of Inl err \<Rightarrow> Inl err | Inr a \<Rightarrow> Inr (\<not> strict_eq a actionData))"

definition not_an_array :: "string \<Rightarrow> exn" where
  "not_an_array key = Error (key @ '' state is not an array'')"

definition setItems_mutation :: "('h, 'u) CrudModule \<Rightarrow> Mutation" where
  "setItems_mutation this st p = Inr (st(items (CrudModule_states this) \<mapsto> payload_data p))"

definition setCurrentItem_mutation :: "('h, 'u) CrudModule \<Rightarrow> Mutation" where
  "setCurrentItem_mutation this st p =
     Inr (st(currentItem (CrudModule_states this) \<mapsto> payload_data p))"

definition addItem_mutation :: "('h, 'u) CrudModule \<Rightarrow> Mutation" where
  "addItem_mutation this st p =
     (let key = items (CrudModule_states this);
          st1 = (if \<not> truthy (read_state st key) then st(key \<mapsto> JArr []) else st)
      in if isArray (read_state st1 key)
         then Inr (st1(key \<mapsto> JArr (elements (read_state st1 key) @ [payload_data p])))
         else Inl (not_an_array key))"

definition updateItem_mutation :: "('h, 'u) CrudModule \<Rightarrow> Mutation" where
  "updateItem_mutation this st p =
     (let key = items (CrudModule_states this) in
      if isArray (read_state st key)
      then (case findIndex_js (same_id (idAttribute this) (payload_data p))
                   (elements (read_state st key)) of
              Inl err \<Rightarrow> Inl err
            | Inr None \<Rightarrow> Inr st
            | Inr (Some index) \<Rightarrow>
                Inr (st(key \<mapsto> JArr ((elements (read_state st key))[index := payload_data p]))))
      else Inl (not_an_array key))"

definition deleteItem_mutation :: "('h, 'u) CrudModule \<Rightarrow> Mutation" where
  "deleteItem_mutation this st p =
     (let key = items (CrudModule_states this) in
      if isArray (read_state st key)
      then (case filter_js (other_id (idAttribute this) (payload_actionData p))
                   (elements (read_state st key)) of
              Inl err \<Rightarrow> Inl err
            | Inr kept \<Rightarrow> Inr (st(key \<mapsto> JArr kept)))
      else Inr st)"

subsection \<open>Building the module\<close>

text \<open>
  An object spread and \<^verbatim>\<open>Object.assign\<close> copy the keys of the right object over the
  left one: \<open>++\<close> on maps. In an object literal a later key replaces an earlier equal one.
\<close>

definition buildActions :: "('h, 'u) CrudModule \<Rightarrow> (string \<rightharpoonup> (nat, 'h, 'u) action)" where
  "buildActions this =
     foldl (\<lambda>accumulator currentValue. accumulator ++ Action_actions currentValue) Map.empty
       (CrudModule_actions this)
     ++ (map_option Additional \<circ> additionalActions this)"

definition buildState :: "('h, 'u) CrudModule \<Rightarrow> State" where
  "buildState this =
     foldl (\<lambda>accumulator currentValue. accumulator ++ Action_state currentValue) Map.empty
       (CrudModule_actions this)
     ++ foldl (\<lambda>accumulator currentValue. accumulator ++ [currentValue \<mapsto> JNull]) Map.empty
          [items (CrudModule_states this), currentItem (CrudModule_states this)]
     ++ additionalState this"

definition buildMutations :: "('h, 'u) CrudModule \<Rightarrow> (string \<rightharpoonup> Mutation)" where
  "buildMutations this =
     (foldl (\<lambda>accumulator currentValue. accumulator ++ Action_mutations currentValue) Map.empty
        (CrudModule_actions this))
       (setItems (CrudModule_mutations this) \<mapsto> setItems_mutation this,
        setCurrentItem (CrudModule_mutations this) \<mapsto> setCurrentItem_mutation this,
        addItem (CrudModule_mutations this) \<mapsto> addItem_mutation this,
        updateItem_name (CrudModule_mutations this) \<mapsto> updateItem_mutation this,
        deleteItem_name (CrudModule_mutations this) \<mapsto> deleteItem_mutation this)"

definition getModule :: "('h, 'u) CrudModule \<Rightarrow> ('h, 'u) Module" where
  "getModule this =
     \<lparr>namespaced = True,
      state = buildState this,
      actions = buildActions this,
      mutations = buildMutations this,
      getters = Map.empty\<rparr>"

subsection \<open>\<^verbatim>\<open>CrudModuleFactory\<close>\<close>

text \<open>
  \<^verbatim>\<open>create\<close>, with \<open>inst\<close> the address of its \<^verbatim>\<open>instance\<close>, the template. \<^verbatim>\<open>Object.assign\<close> onto
  a new object copies every own field of the template, the arrow function among them,
  which goes on reading the template. The assignment then writes the new object's
  \<^verbatim>\<open>resourceName\<close>, and the module is built from the new object. The constructor of
  \<^verbatim>\<open>ResourceName\<close>, whose file is not among the sources, is the parameter
  \<open>new_ResourceName\<close>.
\<close>

definition create ::
  "(string \<Rightarrow> ResourceName) \<Rightarrow> ('h, 'u) heap \<Rightarrow> nat \<Rightarrow> string \<Rightarrow> ('h, 'u) heap \<times> ('h, 'u) Module" where
  "create new_ResourceName h inst resource =
     (let obj = length h;
          h1 = h @ [h ! inst];
          h2 = h1[obj := (h1 ! obj)\<lparr>resourceName := new_ResourceName resource\<rparr>]
      in (h2, getModule (h2 ! obj)))"

text \<open>
  The constructor of \<^verbatim>\<open>CrudModule\<close>: a new instance with the defaults, its arrow
  function reading the instance itself. The imported \<^verbatim>\<open>axios\<close> and the empty callback
  \<^verbatim>\<open>() => {}\<close> are parameters.
\<close>

definition new_CrudModule ::
  "(string \<Rightarrow> ResourceName) \<Rightarrow> (AxiosRequestConfig \<Rightarrow> exn + jsval) \<Rightarrow> 'h \<Rightarrow> ('h, 'u) heap \<Rightarrow>
     string \<Rightarrow> ('h, 'u) heap \<times> nat" where
  "new_CrudModule new_ResourceName default_axios noop h resource =
     (h @ [\<lparr>generateAxiosRequestConfig = length h,
            resourceName = new_ResourceName resource,
            axios = default_axios,
            commitState = True,
            handleActionSuccess = noop,
            handleActionError = noop,
            customAPIDefinition = None,
            idAttribute = ''id'',
            additionalActions = Map.empty,
            additionalState = Map.empty,
            updateStateAfterAction = False,
            refreshAfterAction = False\<rparr>],
      length h)"

subsection \<open>The setters\<close>

text \<open>
  Each setter writes one field of the instance at the address \<open>self\<close>. The three flags go
  through \<^verbatim>\<open>Boolean(value)\<close>.
\<close>

definition setAdditionalActions ::
  "('h, 'u) heap \<Rightarrow> nat \<Rightarrow> (string \<rightharpoonup> 'u) \<Rightarrow> ('h, 'u) heap" where
  "setAdditionalActions h self actions' = h[self := (h ! self)\<lparr>additionalActions := actions'\<rparr>]"

definition setAdditionalState :: "('h, 'u) heap \<Rightarrow> nat \<Rightarrow> State \<Rightarrow> ('h, 'u) heap" where
  "setAdditionalState h self state' = h[self := (h ! self)\<lparr>additionalState := state'\<rparr>]"

definition setAxios ::
  "('h, 'u) heap \<Rightarrow> nat \<Rightarrow> (AxiosRequestConfig \<Rightarrow> exn + jsval) \<Rightarrow> ('h, 'u) heap" where
  "setAxios h self axios' = h[self := (h ! self)\<lparr>axios := axios'\<rparr>]"

definition setIdAttribute :: "('h, 'u) heap \<Rightarrow> nat \<Rightarrow> string \<Rightarrow> ('h, 'u) heap" where
  "setIdAttribute h self v = h[self := (h ! self)\<lparr>idAttribute := v\<rparr>]"

definition setUpdateStateAfterAction :: "('h, 'u) heap \<Rightarrow> nat \<Rightarrow> jsval \<Rightarrow> ('h, 'u) heap" where
  "setUpdateStateAfterAction h self v =
     h[self := (h ! self)\<lparr>updateStateAfterAction := truthy v\<rparr>]"

definition setRefreshAfterAction :: "('h, 'u) heap \<Rightarrow> nat \<Rightarrow> jsval \<Rightarrow> ('h, 'u) heap" where
  "setRefreshAfterAction h self v = h[self := (h ! self)\<lparr>refreshAfterAction := truthy v\<rparr>]"

definition setCommitState :: "('h, 'u) heap \<Rightarrow> nat \<Rightarrow> jsval \<Rightarrow> ('h, 'u) heap" where
  "setCommitState h self v = h[self := (h ! self)\<lparr>commitState := truthy v\<rparr>]"

definition setCustomAPIDefinition ::
  "('h, 'u) heap \<Rightarrow> nat \<Rightarrow> CustomAPIDefinitionFunction \<Rightarrow> ('h, 'u) heap" where
  "setCustomAPIDefinition h self func = h[self := (h ! self)\<lparr>customAPIDefinition := Some func\<rparr>]"

definition onActionSuccess :: "('h, 'u) heap \<Rightarrow> nat \<Rightarrow> 'h \<Rightarrow> ('h, 'u) heap" where
  "onActionSuccess h self func = h[self := (h ! self)\<lparr>handleActionSuccess := func\<rparr>]"

definition onActionError :: "('h, 'u) heap \<Rightarrow> nat \<Rightarrow> 'h \<Rightarrow> ('h, 'u) heap" where
  "onActionError h self func = h[self := (h ! self)\<lparr>handleActionError := func\<rparr>]"

text \<open>
  Running an action of a module: the address its configuration holds for the generator is
  looked up in the heap of the moment.
\<close>

definition bound_config ::
  "('h, 'u) heap \<Rightarrow> (nat, 'h) ActionConfig \<Rightarrow> (APIDefinitionFunction, 'h) ActionConfig" where
  "bound_config h cfg =
     ActionFactory_create
       \<lparr>generateAxiosRequestConfig =
          generateAxiosRequestConfig_body (h ! generateAxiosRequestConfig cfg),
        resourceName = resourceName cfg,
        axios = axios cfg,
        commitState = commitState cfg,
        handleActionSuccess = handleActionSuccess cfg,
        handleActionError = handleActionError cfg\<rparr>
       (loadingMutation cfg) (mutationName cfg) (actionName cfg) (actionType cfg)"

section \<open>A module for the resource \<^verbatim>\<open>users\<close>\<close>

text \<open>
  Two callbacks an application can set: one that returns, like the constructor's
  \<^verbatim>\<open>() => {}\<close>, and one that throws.
\<close>

definition quiet :: ActionHandler where
  "quiet type p resource = None"

definition throwing :: ActionHandler where
  "throwing type p resource = Some (Error ''callback failed'')"

text \<open>
  The instance used where a statement is run on a concrete input: what the constructor
  makes for \<^verbatim>\<open>users\<close> with the HTTP client \<open>http\<close>. The names are those a pluralising
  \<^verbatim>\<open>ResourceName\<close> would give.
\<close>

definition example_names :: "string \<Rightarrow> ResourceName" where
  "example_names resource =
     (if resource = ''users''
      then \<lparr>original = ''users'', singular = ''User'', plural = ''Users''\<rparr>
      else \<lparr>original = resource, singular = ''Product'', plural = ''Products''\<rparr>)"

definition example_module ::
  "(AxiosRequestConfig \<Rightarrow> exn + jsval) \<Rightarrow> (ActionHandler, string) CrudModule" where
  "example_module http =
     \<lparr>generateAxiosRequestConfig = 0,
      resourceName = example_names ''users'',
      axios = http,
      commitState = True,
      handleActionSuccess = quiet,
      handleActionError = quiet,
      customAPIDefinition = None,
      idAttribute = ''id'',
      additionalActions = Map.empty,
      additionalState = Map.empty,
      updateStateAfterAction = False,
      refreshAfterAction = False\<rparr>"

text \<open>The \<open>n\<close>-th of its five executors, the generator looked up in the heap that holds it.\<close>

definition example_action ::
  "(AxiosRequestConfig \<Rightarrow> exn + jsval) \<Rightarrow> nat \<Rightarrow> (APIDefinitionFunction, ActionHandler) ActionConfig" where
  "example_action http n =
     bound_config [example_module http] (CrudModule_actions (example_module http) ! n)"

text \<open>
  The same instance after \<^verbatim>\<open>onActionSuccess\<close> and \<^verbatim>\<open>onActionError\<close> have set two
  callbacks, and the \<open>n\<close>-th of its executors.
\<close>

definition example_callbacks ::
  "ActionHandler \<Rightarrow> ActionHandler \<Rightarrow> (AxiosRequestConfig \<Rightarrow> exn + jsval) \<Rightarrow>
     (ActionHandler, string) CrudModule" where
  "example_callbacks on_success on_error http =
     (example_module http)\<lparr>handleActionSuccess := on_success, handleActionError := on_error\<rparr>"

definition example_callback_action ::
  "ActionHandler \<Rightarrow> ActionHandler \<Rightarrow> (AxiosRequestConfig \<Rightarrow> exn + jsval) \<Rightarrow> nat \<Rightarrow>
     (APIDefinitionFunction, ActionHandler) ActionConfig" where
  "example_callback_action on_success on_error http n =
     bound_config [example_callbacks on_success on_error http]
       (CrudModule_actions (example_callbacks on_success on_error http) ! n)"

text \<open>
  The first instance after \<^verbatim>\<open>setAdditionalState\<close> and \<^verbatim>\<open>setAdditionalActions\<close>, one key
  of each being a key of the defaults.
\<close>

definition example_extended ::
  "(AxiosRequestConfig \<Rightarrow> exn + jsval) \<Rightarrow> (ActionHandler, string) CrudModule" where
  "example_extended http =
     (example_module http)
       \<lparr>additionalState := [''users'' \<mapsto> JArr [], ''page'' \<mapsto> JNum 1],
        additionalActions := [''fetchUsers'' \<mapsto> ''fetchUsersCached'', ''reset'' \<mapsto> ''reset'']\<rparr>"

text \<open>The HTTP client with no network, and the one that answers every request with \<open>body\<close>.\<close>

definition offline :: "AxiosRequestConfig \<Rightarrow> exn + jsval" where
  "offline req = Inl (Rejected (JStr ''Network Error''))"

definition answering :: "jsval \<Rightarrow> AxiosRequestConfig \<Rightarrow> exn + jsval" where
  "answering body req = Inr body"

section \<open>Properties of \<^verbatim>\<open>execute\<close>\<close>

text \<open>
  The store an action runs in holds, under the name of the action's loading mutation, the
  mutation the action itself contributes to the module.
\<close>

definition loading_registered :: "('g, 'h) ActionConfig \<Rightarrow> (string \<rightharpoonup> Mutation) \<Rightarrow> bool" where
  "loading_registered cfg muts =
     (muts (lm_name (loadingMutation cfg)) = Some (loading_mutation (loadingMutation cfg)))"

lemma safe_integer_simps [simp]:
  "- 9007199254740991 \<le> a \<Longrightarrow> a \<le> 9007199254740991 \<Longrightarrow> Rep_jsint (safe_integer a) = a"
  "- 9007199254740991 \<le> a \<Longrightarrow> a \<le> 9007199254740991 \<Longrightarrow>
   - 9007199254740991 \<le> b \<Longrightarrow> b \<le> 9007199254740991 \<Longrightarrow>
     (safe_integer a = safe_integer b) = (a = b)"
  by (transfer, simp)+

declare JNum_def [simp]

lemma example_case_conversions:
  "toUpperCase ''Users'' = ''USERS''" "toUpperCase ''User'' = ''USER''"
  "toLowerCase ''Users'' = ''users''" "toLowerCase ''Products'' = ''products''"
  by (simp_all add: toUpperCase_def toLowerCase_def upper_char_def lower_char_def)

lemma example_module_constructed:
  "(case new_CrudModule example_names http quiet [] ''users'' of (h, self) \<Rightarrow> h ! self)
   = example_module http"
  by (simp add: new_CrudModule_def example_module_def)

lemma example_callbacks_set:
  "onActionError (onActionSuccess [example_module http] 0 on_success) 0 on_error ! 0
   = example_callbacks on_success on_error http"
  by (simp add: onActionSuccess_def onActionError_def example_callbacks_def)

lemma example_extended_set:
  "setAdditionalActions
     (setAdditionalState [example_module http] 0 [''users'' \<mapsto> JArr [], ''page'' \<mapsto> JNum 1]) 0
     [''fetchUsers'' \<mapsto> ''fetchUsersCached'', ''reset'' \<mapsto> ''reset''] ! 0
   = example_extended http"
  by (simp add: setAdditionalActions_def setAdditionalState_def example_extended_def)

lemmas example_defs =
  example_action_def example_module_def example_names_def bound_config_def
  CrudModule_actions_def ActionFactory_create_def config_def CrudModule_mutations_def
  CrudModule_states_def example_case_conversions Let_def

lemmas callback_defs =
  example_callback_action_def example_callbacks_def quiet_def throwing_def

lemmas execute_defs =
  execute_def try_block_def commit_step_def success_step_def catch_block_def

lemma commit_loading:
  "loading_registered cfg muts \<Longrightarrow>
   commit muts st (lm_name (loadingMutation cfg))
     \<lparr>payload_data = JBool b, payload_actionData = JUndefined\<rparr>
   = Inr (st(lm_state (loadingMutation cfg) \<mapsto> JBool b))"
  by (simp add: loading_registered_def commit_def loading_mutation_def)

lemma example_loading_registered:
  "n < 5 \<Longrightarrow> loading_registered (example_action http n) (buildMutations (example_module http))"
proof -
  assume "n < 5"
  then consider "n = 0" | "n = 1" | "n = 2" | "n = 3" | "n = 4" by linarith
  then show ?thesis
    by cases
      (simp_all add: loading_registered_def buildMutations_def Action_mutations_def example_defs)
qed

lemma example_callbacks_loading_registered:
  "n < 5 \<Longrightarrow>
   loading_registered (example_callback_action on_success on_error http n)
     (buildMutations (example_callbacks on_success on_error http))"
proof -
  assume "n < 5"
  then consider "n = 0" | "n = 1" | "n = 2" | "n = 3" | "n = 4" by linarith
  then show ?thesis
    by cases
      (simp_all add: loading_registered_def buildMutations_def Action_mutations_def
         example_callback_action_def example_callbacks_def example_defs)
qed

text \<open>
  A throw of the generator leaves \<^verbatim>\<open>execute\<close> before the \<^verbatim>\<open>try\<close>: nothing but the
  first commit has happened, and the call throws.
\<close>

lemma execute_generation_failure:
  assumes "loading_registered cfg muts"
    and "generateAxiosRequestConfig cfg (original (resourceName cfg)) (actionType cfg) actionData
           = Inl err"
  shows "execute cfg muts st actionData =
     \<lparr>outcome = Threw err,
      store = st(lm_state (loadingMutation cfg) \<mapsto> JBool True),
      trace = [Commit (lm_name (loadingMutation cfg))
                 \<lparr>payload_data = JBool True, payload_actionData = JUndefined\<rparr>]\<rparr>"
  using assms by (simp add: execute_def commit_loading Let_def)

lemma execute_generation_failure_trace:
  assumes "generateAxiosRequestConfig cfg (original (resourceName cfg)) (actionType cfg) actionData
           = Inl err"
  shows "trace (execute cfg muts st actionData) =
           [Commit (lm_name (loadingMutation cfg))
              \<lparr>payload_data = JBool True, payload_actionData = JUndefined\<rparr>]
         \<and> (\<exists>e. outcome (execute cfg muts st actionData) = Threw e)"
  using assms by (simp add: execute_def Let_def split: sum.split)

text \<open>
  When the generator has returned, the last thing \<^verbatim>\<open>execute\<close> does is the commit of the
  loading mutation with \<^verbatim>\<open>false\<close>, and the loading flag is \<^verbatim>\<open>false\<close> in the store it
  leaves, whether the call returns or throws what the error callback threw.
\<close>

lemma execute_releases_loading:
  assumes "loading_registered cfg muts"
    and "generateAxiosRequestConfig cfg (original (resourceName cfg)) (actionType cfg) actionData
           = Inr d"
  shows "last (trace (execute cfg muts st actionData)) =
           Commit (lm_name (loadingMutation cfg))
             \<lparr>payload_data = JBool False, payload_actionData = JUndefined\<rparr>
         \<and> store (execute cfg muts st actionData) (lm_state (loadingMutation cfg))
             = Some (JBool False)"
  using assms
  by (simp add: execute_def commit_loading Let_def split: prod.split sum.split)

text \<open>
  The run of \<^verbatim>\<open>execute\<close> on a failed HTTP call: the error callback is called with what
  the call rejected with, and what the callback does decides how \<^verbatim>\<open>execute\<close> ends.
\<close>

lemma execute_rejected_call:
  assumes "loading_registered cfg muts"
    and "generateAxiosRequestConfig cfg (original (resourceName cfg)) (actionType cfg) actionData
           = Inr d"
    and "axios cfg \<lparr>httpMethod = httpMethod d, url = url d, params = params d, data = data d\<rparr> = Inl E"
  shows "execute cfg muts st actionData =
     \<lparr>outcome =
        (case handleActionError cfg (actionType cfg) (Inl E) (original (resourceName cfg)) of
           None \<Rightarrow> Returned JUndefined
         | Some thrown \<Rightarrow> Threw thrown),
      store = st(lm_state (loadingMutation cfg) \<mapsto> JBool False),
      trace =
        [Commit (lm_name (loadingMutation cfg))
           \<lparr>payload_data = JBool True, payload_actionData = JUndefined\<rparr>,
         Request \<lparr>httpMethod = httpMethod d, url = url d, params = params d, data = data d\<rparr>,
         Failure (actionType cfg) E (original (resourceName cfg)),
         Commit (lm_name (loadingMutation cfg))
           \<lparr>payload_data = JBool False, payload_actionData = JUndefined\<rparr>]\<rparr>"
  using assms by (simp add: execute_defs commit_loading Let_def)


text \<open>
  A throw of the success callback is caught too: the error callback gets what the success
  callback threw, and the response is not returned.
\<close>

lemma execute_callback_throws:
  assumes "loading_registered cfg muts"
    and "generateAxiosRequestConfig cfg (original (resourceName cfg)) (actionType cfg) actionData
           = Inr d"
    and "axios cfg \<lparr>httpMethod = httpMethod d, url = url d, params = params d, data = data d\<rparr> = Inr r"
    and "\<not> commitState cfg"
    and "stateMapper d r = Inr s"
    and "handleActionSuccess cfg (actionType cfg) (Inr s) (original (resourceName cfg)) = Some err"
  shows "execute cfg muts st actionData =
     \<lparr>outcome =
        (case handleActionError cfg (actionType cfg) (Inl err) (original (resourceName cfg)) of
           None \<Rightarrow> Returned JUndefined
         | Some thrown \<Rightarrow> Threw thrown),
      store = st(lm_state (loadingMutation cfg) \<mapsto> JBool False),
      trace =
        [Commit (lm_name (loadingMutation cfg))
           \<lparr>payload_data = JBool True, payload_actionData = JUndefined\<rparr>,
         Request \<lparr>httpMethod = httpMethod d, url = url d, params = params d, data = data d\<rparr>,
         Success (actionType cfg) s (original (resourceName cfg)),
         Failure (actionType cfg) err (original (resourceName cfg)),
         Commit (lm_name (loadingMutation cfg))
           \<lparr>payload_data = JBool False, payload_actionData = JUndefined\<rparr>]\<rparr>"
  using assms by (simp add: execute_defs commit_loading Let_def)

text \<open>
  With \<^verbatim>\<open>commitState\<close> not set and the HTTP call answered, the commits of \<^verbatim>\<open>execute\<close>
  are the two of the loading mutation, whatever the mappers and the callbacks do.
\<close>

lemma execute_no_commit_frame:
  assumes "loading_registered cfg muts"
    and "generateAxiosRequestConfig cfg (original (resourceName cfg)) (actionType cfg) actionData
           = Inr d"
    and "axios cfg \<lparr>httpMethod = httpMethod d, url = url d, params = params d, data = data d\<rparr> = Inr r"
    and "\<not> commitState cfg"
  shows "filter is_Commit (trace (execute cfg muts st actionData)) =
           [Commit (lm_name (loadingMutation cfg))
              \<lparr>payload_data = JBool True, payload_actionData = JUndefined\<rparr>,
            Commit (lm_name (loadingMutation cfg))
              \<lparr>payload_data = JBool False, payload_actionData = JUndefined\<rparr>]"
    and "store (execute cfg muts st actionData) = st(lm_state (loadingMutation cfg) \<mapsto> JBool False)"
  using assms
  by (simp_all add: execute_defs commit_loading Let_def split: sum.split option.split)

text \<open>
  C1. The claim: on every outcome of \<^verbatim>\<open>execute\<close>, a throw of the request generator
  included, the loading mutation is committed with \<^verbatim>\<open>true\<close> first and with \<^verbatim>\<open>false\<close> last,
  so the flag is never left \<^verbatim>\<open>true\<close>. The code calls the generator after the first commit
  and before the \<^verbatim>\<open>try\<close>. Here the update action of the users module is dispatched with
  no payload: the generator throws a \<^verbatim>\<open>TypeError\<close> on \<^verbatim>\<open>actionData[this.idAttribute]\<close>,
  the call throws it, the only commit is the one with \<^verbatim>\<open>true\<close>, and the store is left
  with \<^verbatim>\<open>updatingUser\<close> set to \<^verbatim>\<open>true\<close>.
\<close>

theorem execute_generation_throw_keeps_loading:
  "execute (example_action offline 3) (buildMutations (example_module offline))
      [''users'' \<mapsto> JArr [], ''updatingUser'' \<mapsto> JBool False] JUndefined =
     \<lparr>outcome = Threw TypeError,
      store = [''users'' \<mapsto> JArr [], ''updatingUser'' \<mapsto> JBool True],
      trace = [Commit ''SET_UPDATING_USER''
                 \<lparr>payload_data = JBool True, payload_actionData = JUndefined\<rparr>]\<rparr>"
proof -
  have reg: "loading_registered (example_action offline 3) (buildMutations (example_module offline))"
    by (simp add: example_loading_registered)
  have gen: "generateAxiosRequestConfig (example_action offline 3)
               (original (resourceName (example_action offline 3)))
               (actionType (example_action offline 3)) JUndefined = Inl TypeError"
    by (simp add: example_defs generateAxiosRequestConfig_body_def getProp_def)
  show ?thesis
    by (simp add: execute_generation_failure [OF reg gen]) (simp add: example_defs)
qed

text \<open>
  C2, as amended. The claim: whenever the HTTP call fails with \<open>E\<close>, \<^verbatim>\<open>execute\<close> resolves
  without throwing. The error callback is called in the \<^verbatim>\<open>catch\<close> with nothing around
  it, so what it throws is what the call throws. What holds: when the HTTP call fails with
  \<open>E\<close>, what \<^verbatim>\<open>execute\<close> did is the commit of the loading mutation with \<^verbatim>\<open>true\<close>, the
  request, one call of the error callback with the action type, \<open>E\<close> and the resource
  name, the commit of the loading mutation with \<^verbatim>\<open>false\<close>; the action's own mutation is
  not committed, and the store differs from the one before only in the loading flag, which
  is \<^verbatim>\<open>false\<close>; the call returns \<^verbatim>\<open>undefined\<close> if the error callback returns, and
  throws what the error callback threw if it throws.
\<close>

theorem execute_http_failure:
  assumes "loading_registered cfg muts"
    and "generateAxiosRequestConfig cfg (original (resourceName cfg)) (actionType cfg) actionData
           = Inr d"
    and "axios cfg \<lparr>httpMethod = httpMethod d, url = url d, params = params d, data = data d\<rparr> = Inl E"
  shows "execute cfg muts st actionData =
     \<lparr>outcome =
        (case handleActionError cfg (actionType cfg) (Inl E) (original (resourceName cfg)) of
           None \<Rightarrow> Returned JUndefined
         | Some thrown \<Rightarrow> Threw thrown),
      store = st(lm_state (loadingMutation cfg) \<mapsto> JBool False),
      trace =
        [Commit (lm_name (loadingMutation cfg))
           \<lparr>payload_data = JBool True, payload_actionData = JUndefined\<rparr>,
         Request \<lparr>httpMethod = httpMethod d, url = url d, params = params d, data = data d\<rparr>,
         Failure (actionType cfg) E (original (resourceName cfg)),
         Commit (lm_name (loadingMutation cfg))
           \<lparr>payload_data = JBool False, payload_actionData = JUndefined\<rparr>]\<rparr>"
  using assms by (rule execute_rejected_call)

text \<open>
  The fetch action of the users module with no network, the callbacks being the
  constructor's: the error callback gets the rejection and returns, the call returns
  \<^verbatim>\<open>undefined\<close>, the collection is as it was, the flag is \<^verbatim>\<open>false\<close>.
\<close>

theorem execute_http_failure_witness:
  "loading_registered (example_action offline 0) (buildMutations (example_module offline))
   \<and> generateAxiosRequestConfig (example_action offline 0) ''users'' fetchItems JUndefined =
       Inr \<lparr>httpMethod = ''GET'', url = ''/users'', params = JUndefined, data = JUndefined,
            dataMapper = (\<lambda>e. Inr e), stateMapper = (\<lambda>e. Inr e)\<rparr>
   \<and> axios (example_action offline 0)
        \<lparr>httpMethod = ''GET'', url = ''/users'', params = JUndefined, data = JUndefined\<rparr> =
       Inl (Rejected (JStr ''Network Error''))
   \<and> handleActionError (example_action offline 0) fetchItems
        (Inl (Rejected (JStr ''Network Error''))) ''users'' = None
   \<and> execute (example_action offline 0) (buildMutations (example_module offline))
        [''users'' \<mapsto> JArr [JObj [(''id'', JNum 1)]]] JUndefined =
       \<lparr>outcome = Returned JUndefined,
        store = [''users'' \<mapsto> JArr [JObj [(''id'', JNum 1)]], ''fetchingUsers'' \<mapsto> JBool False],
        trace =
          [Commit ''SET_FETCHING_USERS''
             \<lparr>payload_data = JBool True, payload_actionData = JUndefined\<rparr>,
           Request \<lparr>httpMethod = ''GET'', url = ''/users'', params = JUndefined, data = JUndefined\<rparr>,
           Failure fetchItems (Rejected (JStr ''Network Error'')) ''users'',
           Commit ''SET_FETCHING_USERS''
             \<lparr>payload_data = JBool False, payload_actionData = JUndefined\<rparr>]\<rparr>"
proof -
  let ?cfg = "example_action offline 0"
  let ?d = "\<lparr>httpMethod = ''GET'', url = ''/users'', params = JUndefined, data = JUndefined,
             dataMapper = (\<lambda>e. Inr e), stateMapper = (\<lambda>e. Inr e)\<rparr>"
  have reg: "loading_registered ?cfg (buildMutations (example_module offline))"
    by (simp add: example_loading_registered)
  have gen: "generateAxiosRequestConfig ?cfg (original (resourceName ?cfg)) (actionType ?cfg)
               JUndefined = Inr ?d"
    by (simp add: example_defs generateAxiosRequestConfig_body_def)
  have http: "axios ?cfg \<lparr>httpMethod = httpMethod ?d, url = url ?d, params = params ?d, data = data ?d\<rparr>
               = Inl (Rejected (JStr ''Network Error''))"
    by (simp add: offline_def example_defs)
  have names: "original (resourceName ?cfg) = ''users''" "actionType ?cfg = fetchItems"
    "lm_name (loadingMutation ?cfg) = ''SET_FETCHING_USERS''"
    "lm_state (loadingMutation ?cfg) = ''fetchingUsers''" "handleActionError ?cfg = quiet"
    by (simp_all add: example_defs)
  show ?thesis
    using reg gen http
      execute_http_failure [OF reg gen http, of "[''users'' \<mapsto> JArr [JObj [(''id'', JNum 1)]]]"]
    by (simp add: names quiet_def)
qed

text \<open>
  The claim of C2 fails where the error callback throws. The fetch action of the users
  module with no network, after \<^verbatim>\<open>onActionError\<close> has set a callback that throws: the
  error callback is called once with the rejection, the flag is released, and the call
  throws what the callback threw.
\<close>

theorem execute_error_callback_throw_counterexample:
  "axios (example_callback_action quiet throwing offline 0)
        \<lparr>httpMethod = ''GET'', url = ''/users'', params = JUndefined, data = JUndefined\<rparr> =
       Inl (Rejected (JStr ''Network Error''))
   \<and> execute (example_callback_action quiet throwing offline 0)
        (buildMutations (example_callbacks quiet throwing offline))
        [''users'' \<mapsto> JArr [JObj [(''id'', JNum 1)]]] JUndefined =
       \<lparr>outcome = Threw (Error ''callback failed''),
        store = [''users'' \<mapsto> JArr [JObj [(''id'', JNum 1)]], ''fetchingUsers'' \<mapsto> JBool False],
        trace =
          [Commit ''SET_FETCHING_USERS''
             \<lparr>payload_data = JBool True, payload_actionData = JUndefined\<rparr>,
           Request \<lparr>httpMethod = ''GET'', url = ''/users'', params = JUndefined, data = JUndefined\<rparr>,
           Failure fetchItems (Rejected (JStr ''Network Error'')) ''users'',
           Commit ''SET_FETCHING_USERS''
             \<lparr>payload_data = JBool False, payload_actionData = JUndefined\<rparr>]\<rparr>"
proof -
  let ?cfg = "example_callback_action quiet throwing offline 0"
  let ?d = "\<lparr>httpMethod = ''GET'', url = ''/users'', params = JUndefined, data = JUndefined,
             dataMapper = (\<lambda>e. Inr e), stateMapper = (\<lambda>e. Inr e)\<rparr>"
  have reg: "loading_registered ?cfg (buildMutations (example_callbacks quiet throwing offline))"
    by (simp add: example_callbacks_loading_registered)
  have gen: "generateAxiosRequestConfig ?cfg (original (resourceName ?cfg)) (actionType ?cfg)
               JUndefined = Inr ?d"
    by (simp add: callback_defs example_defs generateAxiosRequestConfig_body_def)
  have http: "axios ?cfg \<lparr>httpMethod = httpMethod ?d, url = url ?d, params = params ?d, data = data ?d\<rparr>
               = Inl (Rejected (JStr ''Network Error''))"
    by (simp add: offline_def callback_defs example_defs)
  have names: "original (resourceName ?cfg) = ''users''" "actionType ?cfg = fetchItems"
    "lm_name (loadingMutation ?cfg) = ''SET_FETCHING_USERS''"
    "lm_state (loadingMutation ?cfg) = ''fetchingUsers''" "handleActionError ?cfg = throwing"
    by (simp_all add: example_callback_action_def example_callbacks_def example_defs)
  show ?thesis
    using http
      execute_rejected_call [OF reg gen http, of "[''users'' \<mapsto> JArr [JObj [(''id'', JNum 1)]]]"]
    by (simp add: names throwing_def)
qed




text \<open>
  C10, as amended. The claim: whenever the HTTP call succeeds and \<^verbatim>\<open>commitState\<close> is
  not set, no mutation but the loading mutation is committed, the success callback is
  still called and the data-mapped response is still returned. The callback and the mappers
  stand inside the \<^verbatim>\<open>try\<close>, so a throw of one of them sends the call to the \<^verbatim>\<open>catch\<close>.
  What holds: when the HTTP call succeeds and \<^verbatim>\<open>commitState\<close> is not set, the only
  commits of \<^verbatim>\<open>execute\<close> are the two of the loading mutation, and the store differs from
  the one before only in the loading flag, which is \<^verbatim>\<open>false\<close>; and when the state
  mapper returns \<open>s\<close>, the success callback returns and the data mapper returns \<open>v\<close>, the
  success callback has been called with the action type, \<open>s\<close> and the resource name, and
  \<open>v\<close> is returned.
\<close>

theorem execute_http_success_no_commit:
  assumes "loading_registered cfg muts"
    and "generateAxiosRequestConfig cfg (original (resourceName cfg)) (actionType cfg) actionData
           = Inr d"
    and "axios cfg \<lparr>httpMethod = httpMethod d, url = url d, params = params d, data = data d\<rparr> = Inr r"
    and "\<not> commitState cfg"
  shows "filter is_Commit (trace (execute cfg muts st actionData)) =
           [Commit (lm_name (loadingMutation cfg))
              \<lparr>payload_data = JBool True, payload_actionData = JUndefined\<rparr>,
            Commit (lm_name (loadingMutation cfg))
              \<lparr>payload_data = JBool False, payload_actionData = JUndefined\<rparr>]
     \<and> store (execute cfg muts st actionData) = st(lm_state (loadingMutation cfg) \<mapsto> JBool False)
     \<and> (stateMapper d r = Inr s
          \<and> handleActionSuccess cfg (actionType cfg) (Inr s) (original (resourceName cfg)) = None
          \<and> dataMapper d r = Inr v \<longrightarrow>
        execute cfg muts st actionData =
          \<lparr>outcome = Returned v,
           store = st(lm_state (loadingMutation cfg) \<mapsto> JBool False),
           trace =
             [Commit (lm_name (loadingMutation cfg))
                \<lparr>payload_data = JBool True, payload_actionData = JUndefined\<rparr>,
              Request \<lparr>httpMethod = httpMethod d, url = url d, params = params d, data = data d\<rparr>,
              Success (actionType cfg) s (original (resourceName cfg)),
              Commit (lm_name (loadingMutation cfg))
                \<lparr>payload_data = JBool False, payload_actionData = JUndefined\<rparr>]\<rparr>)"
proof (intro conjI impI)
  show "filter is_Commit (trace (execute cfg muts st actionData)) =
           [Commit (lm_name (loadingMutation cfg))
              \<lparr>payload_data = JBool True, payload_actionData = JUndefined\<rparr>,
            Commit (lm_name (loadingMutation cfg))
              \<lparr>payload_data = JBool False, payload_actionData = JUndefined\<rparr>]"
    using assms by (rule execute_no_commit_frame)
  show "store (execute cfg muts st actionData) = st(lm_state (loadingMutation cfg) \<mapsto> JBool False)"
    using assms by (rule execute_no_commit_frame)
next
  assume "stateMapper d r = Inr s
          \<and> handleActionSuccess cfg (actionType cfg) (Inr s) (original (resourceName cfg)) = None
          \<and> dataMapper d r = Inr v"
  with assms show "execute cfg muts st actionData =
          \<lparr>outcome = Returned v,
           store = st(lm_state (loadingMutation cfg) \<mapsto> JBool False),
           trace =
             [Commit (lm_name (loadingMutation cfg))
                \<lparr>payload_data = JBool True, payload_actionData = JUndefined\<rparr>,
              Request \<lparr>httpMethod = httpMethod d, url = url d, params = params d, data = data d\<rparr>,
              Success (actionType cfg) s (original (resourceName cfg)),
              Commit (lm_name (loadingMutation cfg))
                \<lparr>payload_data = JBool False, payload_actionData = JUndefined\<rparr>]\<rparr>"
    by (simp add: execute_defs commit_loading Let_def)
qed

text \<open>
  The fetch action of the users module with \<^verbatim>\<open>commitState\<close> switched off: the response is
  returned and reported, the collection stays empty.
\<close>

theorem execute_http_success_no_commit_witness:
  "loading_registered ((example_action (answering (JArr [JObj [(''id'', JNum 1)]])) 0)
       \<lparr>commitState := False\<rparr>)
     (buildMutations (example_module (answering (JArr [JObj [(''id'', JNum 1)]]))))
   \<and> axios ((example_action (answering (JArr [JObj [(''id'', JNum 1)]])) 0)
              \<lparr>commitState := False\<rparr>)
        \<lparr>httpMethod = ''GET'', url = ''/users'', params = JUndefined, data = JUndefined\<rparr> =
       Inr (JArr [JObj [(''id'', JNum 1)]])
   \<and> \<not> commitState ((example_action (answering (JArr [JObj [(''id'', JNum 1)]])) 0)
                      \<lparr>commitState := False\<rparr>)
   \<and> handleActionSuccess ((example_action (answering (JArr [JObj [(''id'', JNum 1)]])) 0)
                            \<lparr>commitState := False\<rparr>)
        fetchItems (Inr (JArr [JObj [(''id'', JNum 1)]])) ''users'' = None
   \<and> filter is_Commit
        (trace (execute ((example_action (answering (JArr [JObj [(''id'', JNum 1)]])) 0)
                          \<lparr>commitState := False\<rparr>)
                  (buildMutations (example_module (answering (JArr [JObj [(''id'', JNum 1)]]))))
                  [''users'' \<mapsto> JArr []] JUndefined)) =
       [Commit ''SET_FETCHING_USERS''
          \<lparr>payload_data = JBool True, payload_actionData = JUndefined\<rparr>,
        Commit ''SET_FETCHING_USERS''
          \<lparr>payload_data = JBool False, payload_actionData = JUndefined\<rparr>]
   \<and> execute ((example_action (answering (JArr [JObj [(''id'', JNum 1)]])) 0)
                \<lparr>commitState := False\<rparr>)
        (buildMutations (example_module (answering (JArr [JObj [(''id'', JNum 1)]]))))
        [''users'' \<mapsto> JArr []] JUndefined =
       \<lparr>outcome = Returned (JArr [JObj [(''id'', JNum 1)]]),
        store = [''users'' \<mapsto> JArr [], ''fetchingUsers'' \<mapsto> JBool False],
        trace =
          [Commit ''SET_FETCHING_USERS''
             \<lparr>payload_data = JBool True, payload_actionData = JUndefined\<rparr>,
           Request \<lparr>httpMethod = ''GET'', url = ''/users'', params = JUndefined, data = JUndefined\<rparr>,
           Success fetchItems (JArr [JObj [(''id'', JNum 1)]]) ''users'',
           Commit ''SET_FETCHING_USERS''
             \<lparr>payload_data = JBool False, payload_actionData = JUndefined\<rparr>]\<rparr>"
proof -
  let ?http = "answering (JArr [JObj [(''id'', JNum 1)]])"
  let ?cfg = "(example_action ?http 0)\<lparr>commitState := False\<rparr>"
  let ?muts = "buildMutations (example_module ?http)"
  let ?d = "\<lparr>httpMethod = ''GET'', url = ''/users'', params = JUndefined, data = JUndefined,
             dataMapper = (\<lambda>e. Inr e), stateMapper = (\<lambda>e. Inr e)\<rparr>"
  let ?base = "example_action ?http 0"
  have names: "original (resourceName (example_action h 0)) = ''users''"
    "actionType (example_action h 0) = fetchItems"
    "lm_name (loadingMutation (example_action h 0)) = ''SET_FETCHING_USERS''"
    "lm_state (loadingMutation (example_action h 0)) = ''fetchingUsers''"
    "handleActionSuccess (example_action h 0) = quiet"
    for h
    by (simp_all add: example_defs)
  have "loading_registered (example_action ?http 0) ?muts"
    by (simp add: example_loading_registered)
  then have reg: "loading_registered ?cfg ?muts"
    by (simp add: loading_registered_def)
  have gen: "generateAxiosRequestConfig ?cfg (original (resourceName ?cfg)) (actionType ?cfg)
               JUndefined = Inr ?d"
    by (simp add: example_defs generateAxiosRequestConfig_body_def)
  have http: "axios ?cfg \<lparr>httpMethod = httpMethod ?d, url = url ?d, params = params ?d, data = data ?d\<rparr>
               = Inr (JArr [JObj [(''id'', JNum 1)]])"
    by (simp add: answering_def example_defs)
  have flag: "\<not> commitState ?cfg"
    by simp
  have called: "handleActionSuccess ?cfg fetchItems (Inr (JArr [JObj [(''id'', JNum 1)]])) ''users''
                  = None"
    by (simp add: names quiet_def)
  note run = execute_http_success_no_commit [OF reg gen http flag, of "[''users'' \<mapsto> JArr []]"
      "JArr [JObj [(''id'', JNum 1)]]" "JArr [JObj [(''id'', JNum 1)]]"]
  have commits: "filter is_Commit (trace (execute ?cfg ?muts [''users'' \<mapsto> JArr []] JUndefined)) =
       [Commit ''SET_FETCHING_USERS''
          \<lparr>payload_data = JBool True, payload_actionData = JUndefined\<rparr>,
        Commit ''SET_FETCHING_USERS''
          \<lparr>payload_data = JBool False, payload_actionData = JUndefined\<rparr>]"
    using run [THEN conjunct1] by (simp add: names)
  have whole: "execute ?cfg ?muts [''users'' \<mapsto> JArr []] JUndefined =
       \<lparr>outcome = Returned (JArr [JObj [(''id'', JNum 1)]]),
        store = [''users'' \<mapsto> JArr [], ''fetchingUsers'' \<mapsto> JBool False],
        trace =
          [Commit ''SET_FETCHING_USERS''
             \<lparr>payload_data = JBool True, payload_actionData = JUndefined\<rparr>,
           Request \<lparr>httpMethod = ''GET'', url = ''/users'', params = JUndefined, data = JUndefined\<rparr>,
           Success fetchItems (JArr [JObj [(''id'', JNum 1)]]) ''users'',
           Commit ''SET_FETCHING_USERS''
             \<lparr>payload_data = JBool False, payload_actionData = JUndefined\<rparr>]\<rparr>"
    using run [THEN conjunct2, THEN conjunct2] called by (simp add: names)
  show ?thesis
    using reg http flag called commits whole by simp
qed

text \<open>
  The claim of C10 fails where the success callback throws. The fetch action of the users
  module with \<^verbatim>\<open>commitState\<close> switched off, after \<^verbatim>\<open>onActionSuccess\<close> has set a callback
  that throws: the HTTP call succeeds, the success callback is called and throws, the
  error callback is called with what it threw, and the caller gets \<^verbatim>\<open>undefined\<close>, not
  the response.
\<close>

theorem execute_success_callback_throw_counterexample:
  "axios ((example_callback_action throwing quiet (answering (JArr [JObj [(''id'', JNum 1)]])) 0)
              \<lparr>commitState := False\<rparr>)
        \<lparr>httpMethod = ''GET'', url = ''/users'', params = JUndefined, data = JUndefined\<rparr> =
       Inr (JArr [JObj [(''id'', JNum 1)]])
   \<and> \<not> commitState
         ((example_callback_action throwing quiet (answering (JArr [JObj [(''id'', JNum 1)]])) 0)
            \<lparr>commitState := False\<rparr>)
   \<and> execute
        ((example_callback_action throwing quiet (answering (JArr [JObj [(''id'', JNum 1)]])) 0)
           \<lparr>commitState := False\<rparr>)
        (buildMutations
           (example_callbacks throwing quiet (answering (JArr [JObj [(''id'', JNum 1)]]))))
        [''users'' \<mapsto> JArr []] JUndefined =
       \<lparr>outcome = Returned JUndefined,
        store = [''users'' \<mapsto> JArr [], ''fetchingUsers'' \<mapsto> JBool False],
        trace =
          [Commit ''SET_FETCHING_USERS''
             \<lparr>payload_data = JBool True, payload_actionData = JUndefined\<rparr>,
           Request \<lparr>httpMethod = ''GET'', url = ''/users'', params = JUndefined, data = JUndefined\<rparr>,
           Success fetchItems (JArr [JObj [(''id'', JNum 1)]]) ''users'',
           Failure fetchItems (Error ''callback failed'') ''users'',
           Commit ''SET_FETCHING_USERS''
             \<lparr>payload_data = JBool False, payload_actionData = JUndefined\<rparr>]\<rparr>"
proof -
  let ?http = "answering (JArr [JObj [(''id'', JNum 1)]])"
  let ?base = "example_callback_action throwing quiet ?http 0"
  let ?cfg = "?base\<lparr>commitState := False\<rparr>"
  let ?muts = "buildMutations (example_callbacks throwing quiet ?http)"
  let ?d = "\<lparr>httpMethod = ''GET'', url = ''/users'', params = JUndefined, data = JUndefined,
             dataMapper = (\<lambda>e. Inr e), stateMapper = (\<lambda>e. Inr e)\<rparr>"
  have names: "original (resourceName (example_callback_action throwing quiet h 0)) = ''users''"
    "actionType (example_callback_action throwing quiet h 0) = fetchItems"
    "lm_name (loadingMutation (example_callback_action throwing quiet h 0)) = ''SET_FETCHING_USERS''"
    "lm_state (loadingMutation (example_callback_action throwing quiet h 0)) = ''fetchingUsers''"
    "handleActionSuccess (example_callback_action throwing quiet h 0) = throwing"
    "handleActionError (example_callback_action throwing quiet h 0) = quiet"
    for h
    by (simp_all add: example_callback_action_def example_callbacks_def example_defs)
  have "loading_registered ?base ?muts"
    by (simp add: example_callbacks_loading_registered)
  then have reg: "loading_registered ?cfg ?muts"
    by (simp add: loading_registered_def)
  have gen: "generateAxiosRequestConfig ?cfg (original (resourceName ?cfg)) (actionType ?cfg)
               JUndefined = Inr ?d"
    by (simp add: example_callback_action_def example_callbacks_def example_defs
        generateAxiosRequestConfig_body_def)
  have http: "axios ?cfg \<lparr>httpMethod = httpMethod ?d, url = url ?d, params = params ?d, data = data ?d\<rparr>
               = Inr (JArr [JObj [(''id'', JNum 1)]])"
    by (simp add: answering_def example_callback_action_def example_callbacks_def example_defs)
  have flag: "\<not> commitState ?cfg"
    by simp
  have mapped: "stateMapper ?d (JArr [JObj [(''id'', JNum 1)]]) = Inr (JArr [JObj [(''id'', JNum 1)]])"
    by simp
  have thrown: "handleActionSuccess ?cfg (actionType ?cfg) (Inr (JArr [JObj [(''id'', JNum 1)]]))
                  (original (resourceName ?cfg)) = Some (Error ''callback failed'')"
    by (simp add: names throwing_def)
  show ?thesis
    using http flag
      execute_callback_throws [OF reg gen http flag mapped thrown, of "[''users'' \<mapsto> JArr []]"]
    by (simp add: names quiet_def)
qed

section \<open>Properties of the request generator\<close>




section \<open>Properties of the mutations\<close>

lemma same_id_simps:
  "\<not> nullish e \<Longrightarrow> \<not> nullish d \<Longrightarrow>
     same_id k d e = Inr (strict_eq (member_js e k) (member_js d k))"
  "nullish e \<Longrightarrow> same_id k d e = Inl TypeError"
  "nullish d \<Longrightarrow> same_id k d e = Inl TypeError"
  by (simp_all add: same_id_def getProp_def)

lemma other_id_simps:
  "\<not> nullish e \<Longrightarrow> other_id k a e = Inr (\<not> strict_eq (member_js e k) a)"
  "nullish e \<Longrightarrow> other_id k a e = Inl TypeError"
  by (simp_all add: other_id_def getProp_def)

text \<open>
  \<^verbatim>\<open>findIndex\<close> gives the first index whose element has the id of the payload, when the
  elements up to it and the payload have properties to read.
\<close>

lemma findIndex_js_first:
  assumes "i < length xs" and "\<not> nullish d"
    and "\<forall>j\<le>i. \<not> nullish (xs ! j)"
    and "strict_eq (member_js (xs ! i) k) (member_js d k)"
    and "\<forall>j<i. \<not> strict_eq (member_js (xs ! j) k) (member_js d k)"
  shows "findIndex_js (same_id k d) xs = Inr (Some i)"
  using assms
proof (induction xs arbitrary: i)
  case Nil
  then show ?case by simp
next
  case (Cons x xs)
  have x: "\<not> nullish x"
    using Cons.prems(3) by (auto dest: spec [of _ 0])
  show ?case
  proof (cases i)
    case 0
    with Cons.prems x show ?thesis by (simp add: same_id_simps)
  next
    case (Suc n)
    have "\<not> strict_eq (member_js x k) (member_js d k)"
      using Cons.prems(5) Suc by (auto dest: spec [of _ 0])
    moreover have "findIndex_js (same_id k d) xs = Inr (Some n)"
    proof (rule Cons.IH)
      show "n < length xs" using Cons.prems(1) Suc by simp
      show "\<not> nullish d" by (rule Cons.prems(2))
      show "\<forall>j\<le>n. \<not> nullish (xs ! j)"
        using Cons.prems(3) Suc by (auto dest: spec [of _ "Suc _"])
      show "strict_eq (member_js (xs ! n) k) (member_js d k)"
        using Cons.prems(4) Suc by simp
      show "\<forall>j<n. \<not> strict_eq (member_js (xs ! j) k) (member_js d k)"
        using Cons.prems(5) Suc by (auto dest: spec [of _ "Suc _"])
    qed
    ultimately show ?thesis
      using x Cons.prems(2) Suc by (simp add: same_id_simps)
  qed
qed

lemma findIndex_js_none:
  assumes "\<not> nullish d" and "\<forall>e\<in>set xs. \<not> nullish e"
    and "\<forall>e\<in>set xs. \<not> strict_eq (member_js e k) (member_js d k)"
  shows "findIndex_js (same_id k d) xs = Inr None"
  using assms by (induction xs) (simp_all add: same_id_simps)

lemma findIndex_js_nullish_payload:
  "xs \<noteq> [] \<Longrightarrow> nullish d \<Longrightarrow> findIndex_js (same_id k d) xs = Inl TypeError"
  by (cases xs) (simp_all add: same_id_simps)

text \<open>\<^verbatim>\<open>filter\<close> keeps, in their order, the elements whose id is not the input.\<close>

lemma filter_js_filter:
  "\<forall>e\<in>set xs. \<not> nullish e \<Longrightarrow>
   filter_js (other_id k a) xs = Inr (filter (\<lambda>e. \<not> strict_eq (member_js e k) a) xs)"
  by (induction xs) (simp_all add: other_id_simps)

lemma filter_js_nullish:
  "\<exists>e\<in>set xs. nullish e \<Longrightarrow> filter_js (other_id k a) xs = Inl TypeError"
proof (induction xs)
  case Nil
  then show ?case by simp
next
  case (Cons x xs)
  show ?case
  proof (cases "nullish x")
    case True
    then show ?thesis by (simp add: other_id_simps)
  next
    case False
    with Cons show ?thesis by (simp add: other_id_simps)
  qed
qed

text \<open>
  C5, as amended. The claim: the add mutation starts an empty collection when the
  collection state is absent, throws when it is present and not a sequence, and appends
  otherwise. The test of the code is \<^verbatim>\<open>!state[items]\<close>, so it is every falsy value that is
  replaced by an empty collection: \<^verbatim>\<open>undefined\<close> and \<^verbatim>\<open>null\<close>, and also
  \<^verbatim>\<open>false\<close>, \<^verbatim>\<open>0\<close> and the empty string. What holds: on a falsy collection state the state
  becomes the collection of the payload alone; on a sequence the payload is appended at
  its end; on a truthy value that is not a sequence the mutation throws.
\<close>

theorem addItem_mutation_cases:
  "(\<not> truthy (read_state st (items (CrudModule_states this))) \<longrightarrow>
      addItem_mutation this st p =
        Inr (st(items (CrudModule_states this) \<mapsto> JArr [payload_data p])))
   \<and> (\<forall>xs. read_state st (items (CrudModule_states this)) = JArr xs \<longrightarrow>
      addItem_mutation this st p =
        Inr (st(items (CrudModule_states this) \<mapsto> JArr (xs @ [payload_data p]))))
   \<and> (truthy (read_state st (items (CrudModule_states this)))
        \<and> \<not> isArray (read_state st (items (CrudModule_states this))) \<longrightarrow>
      addItem_mutation this st p = Inl (not_an_array (items (CrudModule_states this))))"
  by (simp add: addItem_mutation_def Let_def read_state_def)

text \<open>
  The users module: \<^verbatim>\<open>{id: 2}\<close> added to \<^verbatim>\<open>[{id: 1}]\<close>, to a state with no collection,
  and to a collection state that is an object.
\<close>

theorem addItem_mutation_cases_witness:
  "read_state [''users'' \<mapsto> JArr [JObj [(''id'', JNum 1)]]]
       (items (CrudModule_states (example_module offline))) = JArr [JObj [(''id'', JNum 1)]]
   \<and> addItem_mutation (example_module offline) [''users'' \<mapsto> JArr [JObj [(''id'', JNum 1)]]]
        \<lparr>payload_data = JObj [(''id'', JNum 2)], payload_actionData = JUndefined\<rparr> =
       Inr [''users'' \<mapsto> JArr [JObj [(''id'', JNum 1)], JObj [(''id'', JNum 2)]]]
   \<and> \<not> truthy (read_state Map.empty (items (CrudModule_states (example_module offline))))
   \<and> addItem_mutation (example_module offline) Map.empty
        \<lparr>payload_data = JObj [(''id'', JNum 2)], payload_actionData = JUndefined\<rparr> =
       Inr [''users'' \<mapsto> JArr [JObj [(''id'', JNum 2)]]]
   \<and> truthy (read_state [''users'' \<mapsto> JObj [(''total'', JNum 0)]]
        (items (CrudModule_states (example_module offline))))
   \<and> \<not> isArray (read_state [''users'' \<mapsto> JObj [(''total'', JNum 0)]]
        (items (CrudModule_states (example_module offline))))
   \<and> addItem_mutation (example_module offline) [''users'' \<mapsto> JObj [(''total'', JNum 0)]]
        \<lparr>payload_data = JObj [(''id'', JNum 2)], payload_actionData = JUndefined\<rparr> =
       Inl (Error ''users state is not an array'')"
proof -
  let ?m = "example_module offline"
  let ?p = "\<lparr>payload_data = JObj [(''id'', JNum 2)], payload_actionData = JUndefined\<rparr>"
  have key: "items (CrudModule_states ?m) = ''users''"
    by (simp add: example_defs)
  have "addItem_mutation ?m [''users'' \<mapsto> JArr [JObj [(''id'', JNum 1)]]] ?p =
          Inr [''users'' \<mapsto> JArr [JObj [(''id'', JNum 1)], JObj [(''id'', JNum 2)]]]"
    using addItem_mutation_cases [of "[''users'' \<mapsto> JArr [JObj [(''id'', JNum 1)]]]" ?m ?p,
        THEN conjunct2, THEN conjunct1, rule_format, of "[JObj [(''id'', JNum 1)]]"]
    by (simp add: key read_state_def)
  moreover have "addItem_mutation ?m Map.empty ?p = Inr [''users'' \<mapsto> JArr [JObj [(''id'', JNum 2)]]]"
    using addItem_mutation_cases [of Map.empty ?m ?p, THEN conjunct1]
    by (simp add: key read_state_def)
  moreover have "addItem_mutation ?m [''users'' \<mapsto> JObj [(''total'', JNum 0)]] ?p =
          Inl (Error ''users state is not an array'')"
    using addItem_mutation_cases [of "[''users'' \<mapsto> JObj [(''total'', JNum 0)]]" ?m ?p,
        THEN conjunct2, THEN conjunct2]
    by (simp add: key read_state_def not_an_array_def)
  ultimately show ?thesis
    by (simp add: key read_state_def)
qed

text \<open>
  The claim of C5 fails on a collection state that is there, is not a sequence and is
  falsy. The collection state is the empty string (what is stored when the list was
  fetched with an empty response body): the mutation does not throw, and the state becomes
  the collection of the payload alone.
\<close>

theorem addItem_falsy_counterexample:
  "read_state [''users'' \<mapsto> JStr ''''] (items (CrudModule_states (example_module offline)))
     = JStr ''''
   \<and> \<not> isArray (JStr '''')
   \<and> addItem_mutation (example_module offline) [''users'' \<mapsto> JStr '''']
        \<lparr>payload_data = JObj [(''id'', JNum 2)], payload_actionData = JUndefined\<rparr> =
       Inr [''users'' \<mapsto> JArr [JObj [(''id'', JNum 2)]]]"
  by (simp add: addItem_mutation_def read_state_def example_defs)

text \<open>
  C6, as amended. The claim: for every payload the update mutation throws when the
  collection state is not a sequence, and otherwise replaces in place the first element
  whose id is the payload's, or changes nothing when there is none. The ids are read with
  \<^verbatim>\<open>e[this.idAttribute]\<close> and \<^verbatim>\<open>data[this.idAttribute]\<close>, which throw on
  \<^verbatim>\<open>undefined\<close> and \<^verbatim>\<open>null\<close>. What holds: the mutation throws when the collection state
  is not a sequence; for a payload that is not \<^verbatim>\<open>undefined\<close> or \<^verbatim>\<open>null\<close> it replaces the
  first element whose id is the payload's, the elements up to it being none of those two
  values, and it changes nothing when no element has the payload's id, no element being
  one of those two values; on a sequence that is not empty, a payload that is
  \<^verbatim>\<open>undefined\<close> or \<^verbatim>\<open>null\<close> makes it throw a \<^verbatim>\<open>TypeError\<close>.
\<close>

theorem updateItem_mutation_cases:
  "(\<not> isArray (read_state st (items (CrudModule_states this))) \<longrightarrow>
      updateItem_mutation this st p = Inl (not_an_array (items (CrudModule_states this))))
   \<and> (\<forall>xs i. read_state st (items (CrudModule_states this)) = JArr xs
        \<and> \<not> nullish (payload_data p) \<and> i < length xs \<and> (\<forall>j\<le>i. \<not> nullish (xs ! j))
        \<and> strict_eq (member_js (xs ! i) (idAttribute this))
             (member_js (payload_data p) (idAttribute this))
        \<and> (\<forall>j<i. \<not> strict_eq (member_js (xs ! j) (idAttribute this))
                      (member_js (payload_data p) (idAttribute this))) \<longrightarrow>
      updateItem_mutation this st p =
        Inr (st(items (CrudModule_states this) \<mapsto> JArr (xs[i := payload_data p]))))
   \<and> (\<forall>xs. read_state st (items (CrudModule_states this)) = JArr xs
        \<and> \<not> nullish (payload_data p) \<and> (\<forall>e\<in>set xs. \<not> nullish e)
        \<and> (\<forall>e\<in>set xs. \<not> strict_eq (member_js e (idAttribute this))
                          (member_js (payload_data p) (idAttribute this))) \<longrightarrow>
      updateItem_mutation this st p = Inr st)
   \<and> (\<forall>xs. read_state st (items (CrudModule_states this)) = JArr xs
        \<and> xs \<noteq> [] \<and> nullish (payload_data p) \<longrightarrow>
      updateItem_mutation this st p = Inl TypeError)"
proof (intro conjI allI impI)
  assume "\<not> isArray (read_state st (items (CrudModule_states this)))"
  then show "updateItem_mutation this st p = Inl (not_an_array (items (CrudModule_states this)))"
    by (simp add: updateItem_mutation_def)
next
  fix xs i
  assume a: "read_state st (items (CrudModule_states this)) = JArr xs
        \<and> \<not> nullish (payload_data p) \<and> i < length xs \<and> (\<forall>j\<le>i. \<not> nullish (xs ! j))
        \<and> strict_eq (member_js (xs ! i) (idAttribute this))
             (member_js (payload_data p) (idAttribute this))
        \<and> (\<forall>j<i. \<not> strict_eq (member_js (xs ! j) (idAttribute this))
                      (member_js (payload_data p) (idAttribute this)))"
  then have "findIndex_js (same_id (idAttribute this) (payload_data p)) xs = Inr (Some i)"
    by (intro findIndex_js_first) simp_all
  with a show "updateItem_mutation this st p =
        Inr (st(items (CrudModule_states this) \<mapsto> JArr (xs[i := payload_data p])))"
    by (simp add: updateItem_mutation_def)
next
  fix xs
  assume a: "read_state st (items (CrudModule_states this)) = JArr xs
        \<and> \<not> nullish (payload_data p) \<and> (\<forall>e\<in>set xs. \<not> nullish e)
        \<and> (\<forall>e\<in>set xs. \<not> strict_eq (member_js e (idAttribute this))
                          (member_js (payload_data p) (idAttribute this)))"
  then have "findIndex_js (same_id (idAttribute this) (payload_data p)) xs = Inr None"
    by (intro findIndex_js_none) simp_all
  with a show "updateItem_mutation this st p = Inr st"
    by (simp add: updateItem_mutation_def)
next
  fix xs
  assume a: "read_state st (items (CrudModule_states this)) = JArr xs
        \<and> xs \<noteq> [] \<and> nullish (payload_data p)"
  then have "findIndex_js (same_id (idAttribute this) (payload_data p)) xs = Inl TypeError"
    by (simp add: findIndex_js_nullish_payload)
  with a show "updateItem_mutation this st p = Inl TypeError"
    by (simp add: updateItem_mutation_def)
qed

text \<open>
  The users module, the collection \<^verbatim>\<open>[{id: 1, name: "a"}]\<close>: the payload
  \<^verbatim>\<open>{id: 1, name: "b"}\<close> takes the place of the element, the payload
  \<^verbatim>\<open>{id: 9, name: "c"}\<close> changes nothing, a state with no collection makes the mutation
  throw, and so does a payload that is \<^verbatim>\<open>undefined\<close>.
\<close>

theorem updateItem_mutation_cases_witness:
  "updateItem_mutation (example_module offline)
        [''users'' \<mapsto> JArr [JObj [(''id'', JNum 1), (''name'', JStr ''a'')]]]
        \<lparr>payload_data = JObj [(''id'', JNum 1), (''name'', JStr ''b'')],
         payload_actionData = JUndefined\<rparr> =
       Inr [''users'' \<mapsto> JArr [JObj [(''id'', JNum 1), (''name'', JStr ''b'')]]]
   \<and> updateItem_mutation (example_module offline)
        [''users'' \<mapsto> JArr [JObj [(''id'', JNum 1), (''name'', JStr ''a'')]]]
        \<lparr>payload_data = JObj [(''id'', JNum 9), (''name'', JStr ''c'')],
         payload_actionData = JUndefined\<rparr> =
       Inr [''users'' \<mapsto> JArr [JObj [(''id'', JNum 1), (''name'', JStr ''a'')]]]
   \<and> \<not> isArray (read_state Map.empty (items (CrudModule_states (example_module offline))))
   \<and> updateItem_mutation (example_module offline) Map.empty
        \<lparr>payload_data = JObj [(''id'', JNum 1), (''name'', JStr ''b'')],
         payload_actionData = JUndefined\<rparr> =
       Inl (Error ''users state is not an array'')
   \<and> updateItem_mutation (example_module offline)
        [''users'' \<mapsto> JArr [JObj [(''id'', JNum 1), (''name'', JStr ''a'')]]]
        \<lparr>payload_data = JUndefined, payload_actionData = JUndefined\<rparr> =
       Inl TypeError"
proof -
  let ?m = "example_module offline"
  let ?xs = "[JObj [(''id'', JNum 1), (''name'', JStr ''a'')]]"
  let ?st = "[''users'' \<mapsto> JArr ?xs]"
  let ?b = "\<lparr>payload_data = JObj [(''id'', JNum 1), (''name'', JStr ''b'')],
             payload_actionData = JUndefined\<rparr>"
  let ?c = "\<lparr>payload_data = JObj [(''id'', JNum 9), (''name'', JStr ''c'')],
             payload_actionData = JUndefined\<rparr>"
  let ?u = "\<lparr>payload_data = JUndefined, payload_actionData = JUndefined\<rparr>"
  have key: "items (CrudModule_states ?m) = ''users''" "idAttribute ?m = ''id''"
    by (simp_all add: example_defs)
  have "updateItem_mutation ?m ?st ?b =
          Inr [''users'' \<mapsto> JArr [JObj [(''id'', JNum 1), (''name'', JStr ''b'')]]]"
    using updateItem_mutation_cases [of ?st ?m ?b, THEN conjunct2, THEN conjunct1, rule_format,
        of ?xs 0]
    by (simp add: key read_state_def)
  moreover have "updateItem_mutation ?m ?st ?c = Inr ?st"
    using updateItem_mutation_cases [of ?st ?m ?c, THEN conjunct2, THEN conjunct2,
        THEN conjunct1, rule_format, of ?xs]
    by (simp add: key read_state_def)
  moreover have "updateItem_mutation ?m Map.empty ?b = Inl (Error ''users state is not an array'')"
    using updateItem_mutation_cases [of Map.empty ?m ?b, THEN conjunct1]
    by (simp add: key read_state_def not_an_array_def)
  moreover have "updateItem_mutation ?m ?st ?u = Inl TypeError"
    using updateItem_mutation_cases [of ?st ?m ?u, THEN conjunct2, THEN conjunct2,
        THEN conjunct2, rule_format, of ?xs]
    by (simp add: key read_state_def)
  ultimately show ?thesis
    by (simp add: key read_state_def)
qed

text \<open>
  The claim of C6 fails for the payload \<^verbatim>\<open>null\<close> (the state-mapped body of a response
  that is the JSON \<^verbatim>\<open>null\<close>): on a collection of one user the mutation throws a
  \<^verbatim>\<open>TypeError\<close>, where the claim has it change nothing.
\<close>

theorem updateItem_null_payload_counterexample:
  "isArray (read_state [''users'' \<mapsto> JArr [JObj [(''id'', JNum 1), (''name'', JStr ''a'')]]]
      (items (CrudModule_states (example_module offline))))
   \<and> updateItem_mutation (example_module offline)
        [''users'' \<mapsto> JArr [JObj [(''id'', JNum 1), (''name'', JStr ''a'')]]]
        \<lparr>payload_data = JNull, payload_actionData = JObj [(''id'', JNum 1)]\<rparr> =
       Inl TypeError"
  by (simp add: updateItem_mutation_def read_state_def same_id_def getProp_def example_defs)

text \<open>
  C7, as amended. The claim: for every collection state the delete mutation removes from a
  sequence the elements whose id is the action input, and does nothing, without an error,
  when the collection state is not a sequence. The ids are read with
  \<^verbatim>\<open>e[this.idAttribute]\<close>, which throws on \<^verbatim>\<open>undefined\<close> and \<^verbatim>\<open>null\<close>. What holds: on a
  collection state that is not a sequence the mutation changes nothing and does not throw;
  on a sequence with no element \<^verbatim>\<open>undefined\<close> or \<^verbatim>\<open>null\<close> it leaves, in their order, the
  elements whose id is not the action input; on a sequence that has such an element it
  throws a \<^verbatim>\<open>TypeError\<close>. The response payload is not read.
\<close>

theorem deleteItem_mutation_cases:
  "(\<not> isArray (read_state st (items (CrudModule_states this))) \<longrightarrow>
      deleteItem_mutation this st p = Inr st)
   \<and> (\<forall>xs. read_state st (items (CrudModule_states this)) = JArr xs
        \<and> (\<forall>e\<in>set xs. \<not> nullish e) \<longrightarrow>
      deleteItem_mutation this st p =
        Inr (st(items (CrudModule_states this) \<mapsto>
          JArr (filter (\<lambda>e. \<not> strict_eq (member_js e (idAttribute this)) (payload_actionData p))
                  xs))))
   \<and> (\<forall>xs. read_state st (items (CrudModule_states this)) = JArr xs
        \<and> (\<exists>e\<in>set xs. nullish e) \<longrightarrow>
      deleteItem_mutation this st p = Inl TypeError)
   \<and> (\<forall>response. deleteItem_mutation this st (p\<lparr>payload_data := response\<rparr>)
         = deleteItem_mutation this st p)"
  by (simp add: deleteItem_mutation_def Let_def filter_js_filter filter_js_nullish)

text \<open>
  The users module, the collection \<^verbatim>\<open>[{id: 1}, {id: 2}]\<close> and the action input
  \<^verbatim>\<open>1\<close>: the collection becomes \<^verbatim>\<open>[{id: 2}]\<close>, whatever the response was; a state with no
  collection is left as it is; a collection that holds \<^verbatim>\<open>undefined\<close> makes the mutation
  throw.
\<close>

theorem deleteItem_mutation_cases_witness:
  "deleteItem_mutation (example_module offline)
        [''users'' \<mapsto> JArr [JObj [(''id'', JNum 1)], JObj [(''id'', JNum 2)]]]
        \<lparr>payload_data = JObj [(''id'', JNum 2)], payload_actionData = JNum 1\<rparr> =
       Inr [''users'' \<mapsto> JArr [JObj [(''id'', JNum 2)]]]
   \<and> \<not> isArray (read_state Map.empty (items (CrudModule_states (example_module offline))))
   \<and> deleteItem_mutation (example_module offline) Map.empty
        \<lparr>payload_data = JObj [(''id'', JNum 2)], payload_actionData = JNum 1\<rparr> =
       Inr Map.empty
   \<and> deleteItem_mutation (example_module offline)
        [''users'' \<mapsto> JArr [JObj [(''id'', JNum 1)], JUndefined]]
        \<lparr>payload_data = JObj [(''id'', JNum 2)], payload_actionData = JNum 1\<rparr> =
       Inl TypeError"
proof -
  let ?m = "example_module offline"
  let ?xs = "[JObj [(''id'', JNum 1)], JObj [(''id'', JNum 2)]]"
  let ?ys = "[JObj [(''id'', JNum 1)], JUndefined]"
  let ?p = "\<lparr>payload_data = JObj [(''id'', JNum 2)], payload_actionData = JNum 1\<rparr>"
  have key: "items (CrudModule_states ?m) = ''users''" "idAttribute ?m = ''id''"
    by (simp_all add: example_defs)
  have "deleteItem_mutation ?m [''users'' \<mapsto> JArr ?xs] ?p =
          Inr [''users'' \<mapsto> JArr [JObj [(''id'', JNum 2)]]]"
    using deleteItem_mutation_cases [of "[''users'' \<mapsto> JArr ?xs]" ?m ?p,
        THEN conjunct2, THEN conjunct1, rule_format, of ?xs]
    by (simp add: key read_state_def)
  moreover have "deleteItem_mutation ?m Map.empty ?p = Inr Map.empty"
    using deleteItem_mutation_cases [of Map.empty ?m ?p, THEN conjunct1]
    by (simp add: key read_state_def)
  moreover have "deleteItem_mutation ?m [''users'' \<mapsto> JArr ?ys] ?p = Inl TypeError"
    using deleteItem_mutation_cases [of "[''users'' \<mapsto> JArr ?ys]" ?m ?p,
        THEN conjunct2, THEN conjunct2, THEN conjunct1, rule_format, of ?ys]
    by (simp add: key read_state_def)
  ultimately show ?thesis
    by (simp add: key read_state_def)
qed

text \<open>
  The claim of C7 fails on a sequence that holds \<^verbatim>\<open>null\<close> (what the add mutation
  appends when the body of the response to a create is the JSON \<^verbatim>\<open>null\<close>): the mutation
  throws a \<^verbatim>\<open>TypeError\<close> and removes nothing.
\<close>

theorem deleteItem_null_element_counterexample:
  "isArray (read_state [''users'' \<mapsto> JArr [JObj [(''id'', JNum 1)], JNull]]
      (items (CrudModule_states (example_module offline))))
   \<and> deleteItem_mutation (example_module offline)
        [''users'' \<mapsto> JArr [JObj [(''id'', JNum 1)], JNull]]
        \<lparr>payload_data = JStr '''', payload_actionData = JNum 1\<rparr> =
       Inl TypeError"
  by (simp add: deleteItem_mutation_def read_state_def other_id_def getProp_def example_defs)

section \<open>Properties of the module builder\<close>

text \<open>
  The three \<^verbatim>\<open>reduce\<close> loops of the builder add one key for each executor; what a key
  holds after the loop, and the keys there are.
\<close>

lemma foldl_lookup:
  assumes step: "\<And>acc x k. h acc x k = (if k = f x then Some (g x) else acc k)"
    and "distinct (map f cs)" and "c \<in> set cs"
  shows "foldl h m cs (f c) = Some (g c)"
  using assms(2,3)
proof (induction cs arbitrary: m rule: rev_induct)
  case Nil
  then show ?case by simp
next
  case (snoc x xs)
  have unfold: "foldl h m (xs @ [x]) (f c) = h (foldl h m xs) x (f c)"
    by simp
  show ?case
  proof (cases "f c = f x")
    case True
    with snoc.prems have "c = x" by (auto simp: image_iff)
    then show ?thesis unfolding unfold step by simp
  next
    case False
    with snoc.prems have "distinct (map f xs)" "c \<in> set xs" by auto
    then have "foldl h m xs (f c) = Some (g c)" by (rule snoc.IH)
    with False show ?thesis unfolding unfold step by simp
  qed
qed

lemma foldl_dom:
  assumes step: "\<And>acc x k. h acc x k = (if k = f x then Some (g x) else acc k)"
  shows "dom (foldl h m cs) = dom m \<union> f ` set cs"
proof (induction cs rule: rev_induct)
  case Nil
  then show ?case by simp
next
  case (snoc x xs)
  have "k \<in> dom (h (foldl h m xs) x) \<longleftrightarrow> k \<in> insert (f x) (dom (foldl h m xs))" for k
    unfolding dom_def mem_Collect_eq step by auto
  then have "dom (h (foldl h m xs) x) = insert (f x) (dom (foldl h m xs))"
    by blast
  with snoc show ?case by auto
qed

lemma action_names_distinct: "distinct (map actionName (CrudModule_actions this))"
  by (simp add: CrudModule_actions_def ActionFactory_create_def Let_def)

lemma loading_states_distinct:
  "distinct (map (\<lambda>a. lm_state (loadingMutation a)) (CrudModule_actions this))"
  by (simp add: CrudModule_actions_def ActionFactory_create_def Let_def)

lemma loading_names_distinct:
  "distinct (map (\<lambda>a. lm_name (loadingMutation a)) (CrudModule_actions this))"
  by (simp add: CrudModule_actions_def ActionFactory_create_def Let_def)

lemma Action_actions_step:
  "(acc ++ Action_actions x) k = (if k = actionName x then Some (Execute x) else acc k)"
  by (simp add: Action_actions_def map_add_def)

lemma Action_state_step:
  "(acc ++ Action_state x) k = (if k = lm_state (loadingMutation x) then Some JNull else acc k)"
  by (simp add: Action_state_def map_add_def)

lemma Action_mutations_step:
  "(acc ++ Action_mutations x) k =
     (if k = lm_name (loadingMutation x) then Some (loading_mutation (loadingMutation x)) else acc k)"
  by (simp add: Action_mutations_def map_add_def)

lemma default_action:
  assumes "a \<in> set (CrudModule_actions this)" and "additionalActions this (actionName a) = None"
  shows "buildActions this (actionName a) = Some (Execute a)"
proof -
  have "foldl (\<lambda>accumulator currentValue. accumulator ++ Action_actions currentValue) Map.empty
          (CrudModule_actions this) (actionName a) = Some (Execute a)"
    by (rule foldl_lookup [where g = Execute])
      (simp_all only: Action_actions_step action_names_distinct assms(1))
  with assms(2) show ?thesis
    by (simp add: buildActions_def map_add_def)
qed

lemma buildActions_dom:
  fixes this :: "('h, 'u) CrudModule"
  shows "dom (buildActions this) =
     actionName ` set (CrudModule_actions this) \<union> dom (additionalActions this)"
proof -
  have "dom (foldl (\<lambda>accumulator currentValue. accumulator ++ Action_actions currentValue)
          (Map.empty :: string \<rightharpoonup> (nat, 'h, 'u) action)
          (CrudModule_actions this)) = actionName ` set (CrudModule_actions this)"
    using foldl_dom [where h = "\<lambda>accumulator currentValue. accumulator ++ Action_actions currentValue"
            and f = actionName and g = Execute, OF Action_actions_step, of Map.empty]
    by simp
  moreover have "dom (map_option Additional \<circ> additionalActions this) = dom (additionalActions this)"
    by (auto simp add: dom_def)
  ultimately show ?thesis
    by (simp add: buildActions_def Un_commute)
qed

lemma buildState_default:
  assumes "additionalState this k = None"
    and "k \<in> (\<lambda>a. lm_state (loadingMutation a)) ` set (CrudModule_actions this)
           \<union> {items (CrudModule_states this), currentItem (CrudModule_states this)}"
  shows "buildState this k = Some JNull"
proof -
  let ?L = "foldl (\<lambda>accumulator currentValue. accumulator ++ Action_state currentValue) Map.empty
          (CrudModule_actions this)"
  have L: "?L (lm_state (loadingMutation a)) = Some JNull" if "a \<in> set (CrudModule_actions this)" for a
    by (rule foldl_lookup [where f = "\<lambda>a. lm_state (loadingMutation a)" and g = "\<lambda>a. JNull"])
      (simp_all only: Action_state_step loading_states_distinct that)
  from assms(2) have "k = items (CrudModule_states this) \<or> k = currentItem (CrudModule_states this)
      \<or> ?L k = Some JNull"
    using L by auto
  with assms(1) show ?thesis
    by (auto simp add: buildState_def map_add_def)
qed

lemma buildState_dom:
  "dom (buildState this) =
     (\<lambda>a. lm_state (loadingMutation a)) ` set (CrudModule_actions this)
       \<union> {items (CrudModule_states this), currentItem (CrudModule_states this)}
       \<union> dom (additionalState this)"
proof -
  have "dom (foldl (\<lambda>accumulator currentValue. accumulator ++ Action_state currentValue) Map.empty
          (CrudModule_actions this)) =
        (\<lambda>a. lm_state (loadingMutation a)) ` set (CrudModule_actions this)"
    using foldl_dom [where h = "\<lambda>accumulator currentValue. accumulator ++ Action_state currentValue"
            and f = "\<lambda>a. lm_state (loadingMutation a)" and g = "\<lambda>a. JNull",
            OF Action_state_step, of Map.empty]
    by simp
  then show ?thesis
    by (auto simp add: buildState_def)
qed

lemma default_loading_mutation:
  assumes "a \<in> set (CrudModule_actions this)"
    and "lm_name (loadingMutation a) \<noteq> setItems (CrudModule_mutations this)"
    and "lm_name (loadingMutation a) \<noteq> setCurrentItem (CrudModule_mutations this)"
  shows "buildMutations this (lm_name (loadingMutation a)) = Some (loading_mutation (loadingMutation a))"
proof -
  have other: "lm_name (loadingMutation a) \<noteq> addItem (CrudModule_mutations this)"
    "lm_name (loadingMutation a) \<noteq> updateItem_name (CrudModule_mutations this)"
    "lm_name (loadingMutation a) \<noteq> deleteItem_name (CrudModule_mutations this)"
    using assms(1)
    by (auto simp add: CrudModule_actions_def ActionFactory_create_def Let_def CrudModule_mutations_def)
  have "foldl (\<lambda>accumulator currentValue. accumulator ++ Action_mutations currentValue) Map.empty
          (CrudModule_actions this) (lm_name (loadingMutation a))
        = Some (loading_mutation (loadingMutation a))"
    by (rule foldl_lookup [where f = "\<lambda>a. lm_name (loadingMutation a)"
            and g = "\<lambda>a. loading_mutation (loadingMutation a)"])
      (simp_all only: Action_mutations_step loading_names_distinct assms(1))
  with other assms(2,3) show ?thesis
    by (simp add: buildMutations_def)
qed

lemma default_mutations:
  "buildMutations this (deleteItem_name (CrudModule_mutations this)) = Some (deleteItem_mutation this)"
  "buildMutations this (updateItem_name (CrudModule_mutations this)) = Some (updateItem_mutation this)"
  "buildMutations this (addItem (CrudModule_mutations this)) = Some (addItem_mutation this)"
  "buildMutations this (setCurrentItem (CrudModule_mutations this)) = Some (setCurrentItem_mutation this)"
  "setItems (CrudModule_mutations this) \<noteq> setCurrentItem (CrudModule_mutations this) \<Longrightarrow>
   buildMutations this (setItems (CrudModule_mutations this)) = Some (setItems_mutation this)"
  by (simp_all add: buildMutations_def CrudModule_mutations_def)

lemma buildMutations_dom:
  "dom (buildMutations this) =
     (\<lambda>a. lm_name (loadingMutation a)) ` set (CrudModule_actions this)
       \<union> {setItems (CrudModule_mutations this), setCurrentItem (CrudModule_mutations this),
           addItem (CrudModule_mutations this), updateItem_name (CrudModule_mutations this),
           deleteItem_name (CrudModule_mutations this)}"
proof -
  have "dom (foldl (\<lambda>accumulator currentValue. accumulator ++ Action_mutations currentValue) Map.empty
          (CrudModule_actions this)) =
        (\<lambda>a. lm_name (loadingMutation a)) ` set (CrudModule_actions this)"
    using foldl_dom [where h = "\<lambda>accumulator currentValue. accumulator ++ Action_mutations currentValue"
            and f = "\<lambda>a. lm_name (loadingMutation a)"
            and g = "\<lambda>a. loading_mutation (loadingMutation a)",
            OF Action_mutations_step, of Map.empty]
    by simp
  then show ?thesis
    by (auto simp add: buildMutations_def)
qed

lemma buildMutations_additional:
  "buildMutations (this\<lparr>additionalState := s, additionalActions := a\<rparr>) = buildMutations this"
proof -
  have "setItems_mutation (this\<lparr>additionalState := s, additionalActions := a\<rparr>) = setItems_mutation this"
    "setCurrentItem_mutation (this\<lparr>additionalState := s, additionalActions := a\<rparr>) = setCurrentItem_mutation this"
    "addItem_mutation (this\<lparr>additionalState := s, additionalActions := a\<rparr>) = addItem_mutation this"
    "updateItem_mutation (this\<lparr>additionalState := s, additionalActions := a\<rparr>) = updateItem_mutation this"
    "deleteItem_mutation (this\<lparr>additionalState := s, additionalActions := a\<rparr>) = deleteItem_mutation this"
    by (intro ext, simp add: setItems_mutation_def setCurrentItem_mutation_def addItem_mutation_def
          updateItem_mutation_def deleteItem_mutation_def CrudModule_states_def Let_def)+
  moreover have "CrudModule_actions (this\<lparr>additionalState := s, additionalActions := a\<rparr>) = CrudModule_actions this"
    by (simp add: CrudModule_actions_def config_def CrudModule_mutations_def)
  ultimately show ?thesis
    by (simp add: buildMutations_def CrudModule_mutations_def)
qed

lemma action_types:
  "map actionType (CrudModule_actions this) = [fetchItems, getItem, createItem, updateItem, deleteItem]"
  by (simp add: CrudModule_actions_def ActionFactory_create_def Let_def)

text \<open>
  In the module that \<^verbatim>\<open>getModule\<close> builds, the loading mutation of each executor is the
  one registered under its name, when the name is not that of one of the two \<^verbatim>\<open>SET_\<close>
  mutations of the module: the condition under which the properties of \<^verbatim>\<open>execute\<close> are
  stated.
\<close>

lemma getModule_loading_registered:
  assumes "a \<in> set (CrudModule_actions this)"
    and "lm_name (loadingMutation a) \<noteq> setItems (CrudModule_mutations this)"
    and "lm_name (loadingMutation a) \<noteq> setCurrentItem (CrudModule_mutations this)"
  shows "loading_registered (bound_config h a) (mutations (getModule this))"
  using default_loading_mutation [OF assms]
  by (simp add: loading_registered_def getModule_def bound_config_def ActionFactory_create_def)

text \<open>
  C8. \<^verbatim>\<open>getModule\<close> merges with the later entry winning. The state holds one loading
  flag for each of the five executors and the two keys of the collection and the current
  item, all \<^verbatim>\<open>null\<close>, and then the additional state, which replaces any of them that has
  its key. The actions are the five executors, for the five action types, and then the
  additional actions, which replace any of them that has its name. Nothing is checked and
  nothing is thrown on a collision. The mutations do not depend on the additional state and
  actions: the keys of the five default mutations and of the five loading mutations are
  always there, each default mutation under its key (the one that sets the collection when
  its key is not also the key of the one that sets the current item, which is written
  after it), and each loading mutation under its key when that is not the key of one of
  those two.
\<close>

theorem getModule_merge:
  fixes this :: "('h, 'u) CrudModule"
  shows
    "(\<forall>k v. additionalState this k = Some v \<longrightarrow> state (getModule this) k = Some v)
     \<and> (\<forall>k u. additionalActions this k = Some u \<longrightarrow>
           actions (getModule this) k = Some (Additional u))
     \<and> map actionType (CrudModule_actions this) =
           [fetchItems, getItem, createItem, updateItem, deleteItem]
     \<and> (\<forall>a\<in>set (CrudModule_actions this). additionalActions this (actionName a) = None \<longrightarrow>
           actions (getModule this) (actionName a) = Some (Execute a))
     \<and> (\<forall>k\<in>(\<lambda>a. lm_state (loadingMutation a)) ` set (CrudModule_actions this)
               \<union> {items (CrudModule_states this), currentItem (CrudModule_states this)}.
           additionalState this k = None \<longrightarrow> state (getModule this) k = Some JNull)
     \<and> dom (state (getModule this)) =
           (\<lambda>a. lm_state (loadingMutation a)) ` set (CrudModule_actions this)
             \<union> {items (CrudModule_states this), currentItem (CrudModule_states this)}
             \<union> dom (additionalState this)
     \<and> dom (actions (getModule this)) =
           actionName ` set (CrudModule_actions this) \<union> dom (additionalActions this)
     \<and> (\<forall>s a. mutations (getModule (this\<lparr>additionalState := s, additionalActions := a\<rparr>))
           = mutations (getModule this))
     \<and> dom (mutations (getModule this)) =
           (\<lambda>a. lm_name (loadingMutation a)) ` set (CrudModule_actions this)
             \<union> {setItems (CrudModule_mutations this), setCurrentItem (CrudModule_mutations this),
                 addItem (CrudModule_mutations this), updateItem_name (CrudModule_mutations this),
                 deleteItem_name (CrudModule_mutations this)}
     \<and> mutations (getModule this) (deleteItem_name (CrudModule_mutations this))
           = Some (deleteItem_mutation this)
     \<and> mutations (getModule this) (updateItem_name (CrudModule_mutations this))
           = Some (updateItem_mutation this)
     \<and> mutations (getModule this) (addItem (CrudModule_mutations this))
           = Some (addItem_mutation this)
     \<and> mutations (getModule this) (setCurrentItem (CrudModule_mutations this))
           = Some (setCurrentItem_mutation this)
     \<and> (setItems (CrudModule_mutations this) \<noteq> setCurrentItem (CrudModule_mutations this) \<longrightarrow>
           mutations (getModule this) (setItems (CrudModule_mutations this))
             = Some (setItems_mutation this))
     \<and> (\<forall>a\<in>set (CrudModule_actions this).
           lm_name (loadingMutation a) \<noteq> setItems (CrudModule_mutations this)
           \<and> lm_name (loadingMutation a) \<noteq> setCurrentItem (CrudModule_mutations this) \<longrightarrow>
           mutations (getModule this) (lm_name (loadingMutation a))
             = Some (loading_mutation (loadingMutation a)))"
proof -
  have st: "\<forall>k v. additionalState this k = Some v \<longrightarrow> state (getModule this) k = Some v"
    by (simp add: getModule_def buildState_def)
  have ac: "\<forall>k u. additionalActions this k = Some u \<longrightarrow>
              actions (getModule this) k = Some (Additional u)"
    by (simp add: getModule_def buildActions_def map_add_def)
  have dac: "\<forall>a\<in>set (CrudModule_actions this). additionalActions this (actionName a) = None \<longrightarrow>
              actions (getModule this) (actionName a) = Some (Execute a)"
    by (simp add: getModule_def default_action)
  have dst: "\<forall>k\<in>(\<lambda>a. lm_state (loadingMutation a)) ` set (CrudModule_actions this)
               \<union> {items (CrudModule_states this), currentItem (CrudModule_states this)}.
              additionalState this k = None \<longrightarrow> state (getModule this) k = Some JNull"
    using buildState_default [of this] by (simp add: getModule_def)
  have doms: "dom (state (getModule this)) =
           (\<lambda>a. lm_state (loadingMutation a)) ` set (CrudModule_actions this)
             \<union> {items (CrudModule_states this), currentItem (CrudModule_states this)}
             \<union> dom (additionalState this)"
    "dom (actions (getModule this)) =
           actionName ` set (CrudModule_actions this) \<union> dom (additionalActions this)"
    "dom (mutations (getModule this)) =
           (\<lambda>a. lm_name (loadingMutation a)) ` set (CrudModule_actions this)
             \<union> {setItems (CrudModule_mutations this), setCurrentItem (CrudModule_mutations this),
                 addItem (CrudModule_mutations this), updateItem_name (CrudModule_mutations this),
                 deleteItem_name (CrudModule_mutations this)}"
    by (simp_all only: getModule_def Module.simps buildState_dom buildActions_dom
          buildMutations_dom)
  have mu: "\<forall>s a. mutations (getModule (this\<lparr>additionalState := s, additionalActions := a\<rparr>))
              = mutations (getModule this)"
    by (simp add: getModule_def buildMutations_additional)
  have five: "mutations (getModule this) (deleteItem_name (CrudModule_mutations this))
           = Some (deleteItem_mutation this)"
    "mutations (getModule this) (updateItem_name (CrudModule_mutations this))
           = Some (updateItem_mutation this)"
    "mutations (getModule this) (addItem (CrudModule_mutations this))
           = Some (addItem_mutation this)"
    "mutations (getModule this) (setCurrentItem (CrudModule_mutations this))
           = Some (setCurrentItem_mutation this)"
    "setItems (CrudModule_mutations this) \<noteq> setCurrentItem (CrudModule_mutations this) \<longrightarrow>
           mutations (getModule this) (setItems (CrudModule_mutations this))
             = Some (setItems_mutation this)"
    by (simp_all add: getModule_def default_mutations)
  have load: "\<forall>a\<in>set (CrudModule_actions this).
           lm_name (loadingMutation a) \<noteq> setItems (CrudModule_mutations this)
           \<and> lm_name (loadingMutation a) \<noteq> setCurrentItem (CrudModule_mutations this) \<longrightarrow>
           mutations (getModule this) (lm_name (loadingMutation a))
             = Some (loading_mutation (loadingMutation a))"
    by (simp add: getModule_def default_loading_mutation)
  show ?thesis
    using st ac action_types [of this] dac dst doms mu five load by blast
qed

text \<open>
  The users module with the additional state \<^verbatim>\<open>{users: [], page: 1}\<close> and the additional
  actions \<^verbatim>\<open>fetchUsers\<close> and \<^verbatim>\<open>reset\<close>: the collection starts as \<^verbatim>\<open>[]\<close> and not as
  \<^verbatim>\<open>null\<close>, \<^verbatim>\<open>fetchUsers\<close> is the additional action, \<^verbatim>\<open>getUser\<close> is the executor,
  the current item is \<^verbatim>\<open>null\<close>, and \<^verbatim>\<open>SET_USERS\<close> is the mutation that sets the collection.
\<close>

theorem getModule_merge_witness:
  "additionalState (example_extended offline) ''users'' = Some (JArr [])
   \<and> state (getModule (example_extended offline)) ''users'' = Some (JArr [])
   \<and> additionalActions (example_extended offline) ''fetchUsers'' = Some ''fetchUsersCached''
   \<and> actions (getModule (example_extended offline)) ''fetchUsers''
       = Some (Additional ''fetchUsersCached'')
   \<and> CrudModule_actions (example_extended offline) ! 1 \<in> set (CrudModule_actions (example_extended offline))
   \<and> actionName (CrudModule_actions (example_extended offline) ! 1) = ''getUser''
   \<and> additionalActions (example_extended offline) ''getUser'' = None
   \<and> actions (getModule (example_extended offline)) ''getUser''
       = Some (Execute (CrudModule_actions (example_extended offline) ! 1))
   \<and> currentItem (CrudModule_states (example_extended offline)) = ''currentUser''
   \<and> additionalState (example_extended offline) ''currentUser'' = None
   \<and> state (getModule (example_extended offline)) ''currentUser'' = Some JNull
   \<and> setItems (CrudModule_mutations (example_extended offline)) = ''SET_USERS''
   \<and> setCurrentItem (CrudModule_mutations (example_extended offline)) = ''SET_CURRENT_USER''
   \<and> mutations (getModule (example_extended offline)) ''SET_USERS''
       = Some (setItems_mutation (example_extended offline))"
proof -
  let ?m = "example_extended offline"
  note merge = getModule_merge [of ?m]
  have add: "additionalState ?m ''users'' = Some (JArr [])"
    "additionalActions ?m ''fetchUsers'' = Some ''fetchUsersCached''"
    "additionalActions ?m ''getUser'' = None" "additionalState ?m ''currentUser'' = None"
    by (simp_all add: example_extended_def)
  have names: "actionName (CrudModule_actions ?m ! 1) = ''getUser''"
    "currentItem (CrudModule_states ?m) = ''currentUser''"
    "setItems (CrudModule_mutations ?m) = ''SET_USERS''"
    "setCurrentItem (CrudModule_mutations ?m) = ''SET_CURRENT_USER''"
    by (simp_all add: example_extended_def example_defs)
  have mem: "CrudModule_actions ?m ! 1 \<in> set (CrudModule_actions ?m)"
    by (simp add: CrudModule_actions_def Let_def)
  have s1: "state (getModule ?m) ''users'' = Some (JArr [])"
    using merge [THEN conjunct1, rule_format, OF add(1)] .
  have a1: "actions (getModule ?m) ''fetchUsers'' = Some (Additional ''fetchUsersCached'')"
    using merge [THEN conjunct2, THEN conjunct1, rule_format, OF add(2)] .
  have none: "additionalActions ?m (actionName (CrudModule_actions ?m ! 1)) = None"
    by (simp only: names add)
  have a2: "actions (getModule ?m) ''getUser'' = Some (Execute (CrudModule_actions ?m ! 1))"
    using merge [THEN conjunct2, THEN conjunct2, THEN conjunct2, THEN conjunct1, rule_format,
        OF mem none]
    by (simp only: names)
  have s2: "state (getModule ?m) ''currentUser'' = Some JNull"
    using merge [THEN conjunct2, THEN conjunct2, THEN conjunct2, THEN conjunct2, THEN conjunct1,
        rule_format, of "''currentUser''"] add(4)
    by (simp add: names)
  have m1: "mutations (getModule ?m) ''SET_USERS'' = Some (setItems_mutation ?m)"
    using merge [THEN conjunct2, THEN conjunct2, THEN conjunct2, THEN conjunct2, THEN conjunct2,
        THEN conjunct2, THEN conjunct2, THEN conjunct2, THEN conjunct2, THEN conjunct2,
        THEN conjunct2, THEN conjunct2, THEN conjunct2]
    by (simp add: names)
  show ?thesis
    using add names mem s1 a1 a2 s2 m1 by simp
qed

section \<open>Properties of the factory\<close>

lemma create_eq:
  "inst < length h \<Longrightarrow>
   create new_ResourceName h inst resource =
     (h @ [(h ! inst)\<lparr>resourceName := new_ResourceName resource\<rparr>],
      getModule ((h ! inst)\<lparr>resourceName := new_ResourceName resource\<rparr>))"
  by (simp add: create_def Let_def nth_append)

text \<open>
  C9. \<^verbatim>\<open>create\<close> leaves every object that was in the heap as it was, the template among
  them, with its \<^verbatim>\<open>resourceName\<close> and its other fields: what it writes is a new object.
  The module it returns is the module of the template's fields with the resource name of
  the argument. So two calls on one template with one resource name return equal modules,
  and the module for a resource is the same whatever resource a module was created for
  before: no naming is kept from one call to the next.
\<close>

theorem create_keeps_template:
  assumes "inst < length h"
  shows "take (length h) (fst (create new_ResourceName h inst resource)) = h
    \<and> fst (create new_ResourceName h inst resource) ! inst = h ! inst
    \<and> snd (create new_ResourceName h inst resource) =
        getModule ((h ! inst)\<lparr>resourceName := new_ResourceName resource\<rparr>)
    \<and> snd (create new_ResourceName (fst (create new_ResourceName h inst resource)) inst resource)
        = snd (create new_ResourceName h inst resource)
    \<and> snd (create new_ResourceName (fst (create new_ResourceName h inst other)) inst resource)
        = snd (create new_ResourceName h inst resource)"
  using assms by (simp add: create_eq nth_append)

text \<open>
  The users template, from which a module for \<^verbatim>\<open>products\<close> is created: the template
  still names \<^verbatim>\<open>users\<close>, the module has the state key \<^verbatim>\<open>products\<close>, and a second
  \<^verbatim>\<open>create\<close>, or one made after a module for \<^verbatim>\<open>users\<close>, returns the same module.
\<close>

theorem create_keeps_template_witness:
  "(0::nat) < length [example_module offline]
   \<and> fst (create example_names [example_module offline] 0 ''products'') ! 0 = example_module offline
   \<and> original (resourceName (fst (create example_names [example_module offline] 0 ''products'') ! 0))
       = ''users''
   \<and> state (snd (create example_names [example_module offline] 0 ''products'')) ''products''
       = Some JNull
   \<and> snd (create example_names
            (fst (create example_names [example_module offline] 0 ''products'')) 0 ''products'')
       = snd (create example_names [example_module offline] 0 ''products'')
   \<and> snd (create example_names
            (fst (create example_names [example_module offline] 0 ''users'')) 0 ''products'')
       = snd (create example_names [example_module offline] 0 ''products'')"
proof -
  have len: "(0::nat) < length [example_module offline]"
    by simp
  note kept = create_keeps_template [OF len, of example_names "''products''" "''users''"]
  have name: "original (resourceName (example_module offline)) = ''users''"
    by (simp add: example_module_def example_names_def)
  have key: "state (getModule ((example_module offline)\<lparr>resourceName := example_names ''products''\<rparr>))
               ''products'' = Some JNull"
    by (simp add: getModule_def buildState_def CrudModule_states_def example_names_def
          example_module_def example_case_conversions)
  show ?thesis
    using len kept name key by simp
qed

end
